theory Spec2Isabelle
  imports Main "HOL-Library.Sublist" "HOL-Library.Char_ord" "HOL-Library.List_Lexorder"
begin

section \<open>Python values and library functions used by streamlitCloud_app.py\<close>

text \<open>
  A Python \<open>str\<close> is modelled as \<^typ>\<open>string\<close>; every function below treats the
  characters as opaque symbols, so nothing depends on the size of the alphabet.
  An exception is a value: its class and the text that \<open>str(e)\<close> yields.
\<close>

datatype exc_class =
  FileNotFoundError | NoCredentialsError | HTTPError | ValueError
  | ServiceApiException | ServiceUsageException | SdkException | OtherException

datatype py_exception = PyExc exc_class string

fun exc_str :: "py_exception \<Rightarrow> string" where
  "exc_str (PyExc c m) = m"

text \<open>\<open>str(n)\<close> for a non-negative integer: its decimal digits.\<close>

definition digit_char :: "nat \<Rightarrow> char" where
  "digit_char d = char_of (48 + d)"

function str_nat :: "nat \<Rightarrow> string" where
  "str_nat n = (if n < 10 then [digit_char n] else str_nat (n div 10) @ [digit_char (n mod 10)])"
  by pat_completeness auto
termination
  by (relation "measure (\<lambda>n. n)") auto

declare str_nat.simps [simp del]

text \<open>\<open>sep.join(xs)\<close>.\<close>

fun join :: "string \<Rightarrow> string list \<Rightarrow> string" where
  "join sep [] = []"
| "join sep [x] = x"
| "join sep (x # y # ys) = x @ sep @ join sep (y # ys)"

text \<open>\<open>s.startswith(p)\<close> and \<open>s.endswith(p)\<close>.\<close>

definition startswith :: "string \<Rightarrow> string \<Rightarrow> bool" where
  "startswith s p = prefix p s"

definition endswith :: "string \<Rightarrow> string \<Rightarrow> bool" where
  "endswith s p = suffix p s"

text \<open>
  \<open>s.replace(old, new)\<close>: every non-overlapping occurrence of \<open>old\<close>, scanning
  from the left; with an empty \<open>old\<close>, \<open>new\<close> is put before every character and at
  the end.
\<close>

function str_replace :: "string \<Rightarrow> string \<Rightarrow> string \<Rightarrow> string" where
  "str_replace old new s =
     (if old = [] then new @ concat (map (\<lambda>c. c # new) s)
      else if s = [] then []
      else if prefix old s then new @ str_replace old new (drop (length old) s)
      else hd s # str_replace old new (tl s))"
  by pat_completeness auto
termination
  by (relation "measure (\<lambda>(old, new, s). length s)") auto

declare str_replace.simps [simp del]

text \<open>\<open>os.path.basename\<close> and the two-argument \<open>os.path.join\<close> (POSIX paths).\<close>

definition basename :: "string \<Rightarrow> string" where
  "basename p = rev (takeWhile (\<lambda>c. c \<noteq> CHR ''/'') (rev p))"

definition path_join :: "string \<Rightarrow> string \<Rightarrow> string" where
  "path_join a b =
     (if startswith b ''/'' then b
      else if a = [] \<or> endswith a ''/'' then a @ b
      else a @ ''/'' @ b)"

section \<open>Configuration and object storage\<close>

text \<open>
  \<open>st.secrets\<close> is a dictionary of strings; \<open>st.secrets.get(k, d)\<close> is
  \<open>secrets_get\<close>. The S3 client is the environment's answer to one
  \<open>upload_file(file_path, bucket, key)\<close> call: it returns, or raises an exception.
  \<open>boto3_client key secret region\<close> is the client that \<open>boto3.client\<close> builds.
  \<open>named_temporary_file page_num img_index suffix\<close> is the path of the file that
  \<open>tempfile.NamedTemporaryFile(delete=False, suffix=...)\<close> creates for image
  \<open>img_index\<close> of page \<open>page_num\<close>: the operating system chooses it, so it differs
  from run to run.
\<close>

type_synonym secrets = "string \<rightharpoonup> string"

definition secrets_get :: "secrets \<Rightarrow> string \<Rightarrow> string \<Rightarrow> string" where
  "secrets_get s k d = (case s k of None \<Rightarrow> d | Some v \<Rightarrow> v)"

type_synonym s3_client = "string \<Rightarrow> string \<Rightarrow> string \<Rightarrow> py_exception + unit"

record app_env =
  st_secrets :: secrets
  boto3_client :: "string \<Rightarrow> string \<Rightarrow> string \<Rightarrow> s3_client"
  named_temporary_file :: "nat \<Rightarrow> nat \<Rightarrow> string \<Rightarrow> string"

text \<open>One attempted upload: the local path, the bucket and the object key.\<close>

type_synonym s3_call = "string \<times> string \<times> string"

text \<open>
  \<open>upload_file_to_s3\<close> (lines 251-286). The result is the returned URL (\<open>None\<close>
  for Python's \<open>None\<close>) together with the list of upload calls that were made.
\<close>

definition upload_file_to_s3 :: "app_env \<Rightarrow> string \<Rightarrow> string option \<times> s3_call list" where
  "upload_file_to_s3 env file_path =
     (let bucket_name = secrets_get (st_secrets env) ''S3_BUCKET_NAME'' [];
          aws_key = secrets_get (st_secrets env) ''AWS_ACCESS_KEY_ID'' [];
          aws_secret = secrets_get (st_secrets env) ''AWS_SECRET_ACCESS_KEY'' [];
          aws_region = secrets_get (st_secrets env) ''AWS_DEFAULT_REGION'' ''us-east-1''
      in if \<not> (bucket_name \<noteq> [] \<and> aws_key \<noteq> [] \<and> aws_secret \<noteq> []) then (None, [])
         else
           (let s3_client = boto3_client env aws_key aws_secret aws_region;
                object_key = basename file_path
            in case s3_client file_path bucket_name object_key of
                 Inr u \<Rightarrow>
                   (Some (''https://'' @ bucket_name @ ''.s3.amazonaws.com/'' @ object_key),
                    [(file_path, bucket_name, object_key)])
               | Inl (PyExc c m) \<Rightarrow>
                   (case c of
                      FileNotFoundError \<Rightarrow> (None, [(file_path, bucket_name, object_key)])
                    | NoCredentialsError \<Rightarrow> (None, [(file_path, bucket_name, object_key)])
                    | _ \<Rightarrow> (None, [(file_path, bucket_name, object_key)]))))"

text \<open>The three settings the upload needs are all set to a non-empty value.\<close>

definition s3_configured :: "app_env \<Rightarrow> bool" where
  "s3_configured env =
     (secrets_get (st_secrets env) ''S3_BUCKET_NAME'' [] \<noteq> []
      \<and> secrets_get (st_secrets env) ''AWS_ACCESS_KEY_ID'' [] \<noteq> []
      \<and> secrets_get (st_secrets env) ''AWS_SECRET_ACCESS_KEY'' [] \<noteq> [])"

text \<open>The answer of the storage service to the upload of \<open>file_path\<close>.\<close>

definition s3_outcome :: "app_env \<Rightarrow> string \<Rightarrow> py_exception + unit" where
  "s3_outcome env file_path =
     boto3_client env
       (secrets_get (st_secrets env) ''AWS_ACCESS_KEY_ID'' [])
       (secrets_get (st_secrets env) ''AWS_SECRET_ACCESS_KEY'' [])
       (secrets_get (st_secrets env) ''AWS_DEFAULT_REGION'' ''us-east-1'')
       file_path
       (secrets_get (st_secrets env) ''S3_BUCKET_NAME'' [])
       (basename file_path)"

text \<open>Concrete environments for the examples.\<close>

definition demo_secrets :: secrets where
  "demo_secrets =
     [''S3_BUCKET_NAME'' \<mapsto> ''bkt'', ''AWS_ACCESS_KEY_ID'' \<mapsto> ''AK'',
      ''AWS_SECRET_ACCESS_KEY'' \<mapsto> ''SK'']"

definition no_secrets :: secrets where
  "no_secrets = Map.empty"

definition client_ok :: "string \<Rightarrow> string \<Rightarrow> string \<Rightarrow> s3_client" where
  "client_ok k s r = (\<lambda>p b key. Inr ())"

definition client_transport_error :: "string \<Rightarrow> string \<Rightarrow> string \<Rightarrow> s3_client" where
  "client_transport_error k s r = (\<lambda>p b key. Inl (PyExc OtherException ''timed out''))"

definition tmp_names_a :: "nat \<Rightarrow> nat \<Rightarrow> string \<Rightarrow> string" where
  "tmp_names_a page_num img_index sfx =
     ''/tmp/tmpa'' @ str_nat page_num @ ''_'' @ str_nat img_index @ sfx"


definition env_ok :: app_env where
  "env_ok = \<lparr>st_secrets = demo_secrets, boto3_client = client_ok,
     named_temporary_file = tmp_names_a\<rparr>"

definition env_failing :: app_env where
  "env_failing = \<lparr>st_secrets = demo_secrets, boto3_client = client_transport_error,
     named_temporary_file = tmp_names_a\<rparr>"

definition env_unconfigured :: app_env where
  "env_unconfigured = \<lparr>st_secrets = no_secrets, boto3_client = client_ok,
     named_temporary_file = tmp_names_a\<rparr>"

section \<open>A) Open-source PDF extraction\<close>

text \<open>
  The results of the local parsing libraries for one document: per page the images that
  PyMuPDF finds (in discovery order, each with its bytes and its file extension), per
  page what pdfplumber's \<open>extract_text()\<close> returns (\<open>None\<close> for a page without
  text), and the outcome of tabula's \<open>read_pdf\<close>. \<open>read_pdf n\<close> is the outcome of
  the call number \<open>n\<close> to \<open>read_pdf\<close> on this document (\<open>0\<close> is the first call), so
  that a retry would be visible. Tables are pandas frames, kept abstract as \<open>'t\<close>;
  \<open>to_markdown\<close> stands for \<open>DataFrame.to_markdown(index=False)\<close>, which returns
  the rendered table or raises.
\<close>

record base_image =
  image_bytes :: string
  image_ext :: string

record 't local_pdf =
  fitz_pages :: "base_image list list"
  plumber_pages :: "string option list"
  read_pdf :: "nat \<Rightarrow> py_exception + 't list"

text \<open>Python's truth value of an optional string.\<close>

definition truthy :: "string option \<Rightarrow> bool" where
  "truthy v = (case v of None \<Rightarrow> False | Some s \<Rightarrow> s \<noteq> [])"

text \<open>\<open>extract_images_to_md\<close> (lines 42-88): the inner loop over the images of a page.\<close>

fun images_loop :: "app_env \<Rightarrow> nat \<Rightarrow> (nat \<times> base_image) list \<Rightarrow> string \<Rightarrow> string" where
  "images_loop env page_num [] md_images = md_images"
| "images_loop env page_num ((img_index, img) # rest) md_images =
     (let tmp_path = named_temporary_file env page_num img_index (''.'' @ image_ext img);
          s3_url = fst (upload_file_to_s3 env tmp_path)
      in images_loop env page_num rest
           (if truthy s3_url
            then md_images @ ''![Image page '' @ str_nat (page_num + 1) @ '' - ''
                   @ str_nat (img_index + 1) @ '']('' @ the s3_url @ '')\<newline>''
            else md_images @ ''\<newline>**[Warning: Failed to upload image (page ''
                   @ str_nat (page_num + 1) @ '', index '' @ str_nat (img_index + 1)
                   @ '') to S3]**\<newline>''))"

text \<open>The outer loop over \<open>range(len(doc))\<close>.\<close>

fun pages_loop :: "app_env \<Rightarrow> (nat \<times> base_image list) list \<Rightarrow> string \<Rightarrow> string" where
  "pages_loop env [] md_images = md_images"
| "pages_loop env ((page_num, images) # rest) md_images =
     pages_loop env rest (images_loop env page_num (enumerate 0 images) md_images)"

definition extract_images_to_md :: "app_env \<Rightarrow> 't local_pdf \<Rightarrow> string" where
  "extract_images_to_md env doc =
     pages_loop env (enumerate 0 (fitz_pages doc)) ''\<newline>## Extracted Images\<newline>''"

text \<open>\<open>extract_text_to_md\<close> (lines 91-98).\<close>

fun text_loop :: "(nat \<times> string option) list \<Rightarrow> string \<Rightarrow> string" where
  "text_loop [] md_text = md_text"
| "text_loop ((page_num, extracted) # rest) md_text =
     (let page_text = (if truthy extracted then the extracted else [])
      in text_loop rest
           (md_text @ ''\<newline>### Page '' @ str_nat (page_num + 1) @ ''\<newline>```\<newline>''
              @ page_text @ ''\<newline>```\<newline>''))"

definition extract_text_to_md :: "'t local_pdf \<Rightarrow> string" where
  "extract_text_to_md doc =
     text_loop (enumerate 0 (plumber_pages doc)) ''\<newline>## Extracted Text\<newline>''"

text \<open>
  \<open>extract_tables_to_md\<close> (lines 100-111). The loop of lines 105-108 runs inside the
  \<open>try\<close>: it returns the value of \<open>md_tables\<close> when it ends, together with the
  exception that ended it, if \<open>to_markdown\<close> raised. The heading of a table is
  appended before the table is rendered.
\<close>

fun tables_loop ::
  "('t \<Rightarrow> py_exception + string) \<Rightarrow> (nat \<times> 't) list \<Rightarrow> string \<Rightarrow> string \<times> py_exception option" where
  "tables_loop to_markdown [] md_tables = (md_tables, None)"
| "tables_loop to_markdown ((i, table) # rest) md_tables =
     (let md_tables1 = md_tables @ ''\<newline>### Table '' @ str_nat (i + 1) @ ''\<newline>''
      in case to_markdown table of
           Inl e \<Rightarrow> (md_tables1, Some e)
         | Inr rendered \<Rightarrow> tables_loop to_markdown rest (md_tables1 @ rendered @ ''\<newline>''))"

text \<open>
  \<open>read_pdf\<close> is called once. The handler of line 109 catches what \<open>read_pdf\<close> raises
  and what the loop raises, and appends the failure line to \<open>md_tables\<close> as it is then.
\<close>

definition extract_tables_to_md ::
  "('t \<Rightarrow> py_exception + string) \<Rightarrow> 't local_pdf \<Rightarrow> string" where
  "extract_tables_to_md to_markdown doc =
     (let md_tables = ''\<newline>## Extracted Tables\<newline>''
      in case read_pdf doc 0 of
           Inr tables \<Rightarrow>
             (let r = tables_loop to_markdown (enumerate 0 tables) md_tables
              in case snd r of
                   None \<Rightarrow> fst r
                 | Some e \<Rightarrow> fst r @ ''\<newline>Failed to process tables: '' @ exc_str e @ ''\<newline>'')
         | Inl e \<Rightarrow> md_tables @ ''\<newline>Failed to process tables: '' @ exc_str e @ ''\<newline>'')"

text \<open>\<open>open_source_extract_pdf\<close> (lines 113-119).\<close>

definition open_source_extract_pdf ::
  "app_env \<Rightarrow> ('t \<Rightarrow> py_exception + string) \<Rightarrow> string \<Rightarrow> 't local_pdf \<Rightarrow> string" where
  "open_source_extract_pdf env to_markdown pdf_path doc =
     (let md0 = ''# Extracted Content from '' @ basename pdf_path @ ''\<newline>'';
          md1 = md0 @ extract_images_to_md env doc;
          md2 = md1 @ extract_text_to_md doc;
          md3 = md2 @ extract_tables_to_md to_markdown doc
      in md3)"

text \<open>
  What the specification says each section holds, written down independently of the
  loops: the fragment of one image, of one page of text and of one table.
\<close>

definition rehost :: "app_env \<Rightarrow> nat \<Rightarrow> nat \<Rightarrow> base_image \<Rightarrow> string option" where
  "rehost env page_num img_index img =
     fst (upload_file_to_s3 env (named_temporary_file env page_num img_index (''.'' @ image_ext img)))"

definition spec_image_line :: "nat \<Rightarrow> nat \<Rightarrow> string \<Rightarrow> string" where
  "spec_image_line p i url =
     ''![Image page '' @ str_nat p @ '' - '' @ str_nat i @ '']('' @ url @ '')\<newline>''"

definition spec_image_warning :: "nat \<Rightarrow> nat \<Rightarrow> string" where
  "spec_image_warning p i =
     ''\<newline>**[Warning: Failed to upload image (page '' @ str_nat p @ '', index ''
       @ str_nat i @ '') to S3]**\<newline>''"

definition spec_image_fragment :: "app_env \<Rightarrow> nat \<Rightarrow> nat \<times> base_image \<Rightarrow> string" where
  "spec_image_fragment env page_num x =
     (case rehost env page_num (fst x) (snd x) of
        Some url \<Rightarrow> spec_image_line (page_num + 1) (fst x + 1) url
      | None \<Rightarrow> spec_image_warning (page_num + 1) (fst x + 1))"

definition spec_images_body :: "app_env \<Rightarrow> base_image list list \<Rightarrow> string" where
  "spec_images_body env pages =
     concat (map (\<lambda>pg. concat (map (spec_image_fragment env (fst pg)) (enumerate 0 (snd pg))))
                 (enumerate 0 pages))"

definition spec_page_fragment :: "nat \<times> string option \<Rightarrow> string" where
  "spec_page_fragment x =
     ''\<newline>### Page '' @ str_nat (fst x + 1) @ ''\<newline>```\<newline>''
       @ (case snd x of None \<Rightarrow> [] | Some t \<Rightarrow> t) @ ''\<newline>```\<newline>''"

definition spec_text_body :: "string option list \<Rightarrow> string" where
  "spec_text_body pages = concat (map spec_page_fragment (enumerate 0 pages))"

text \<open>
  The fragment of a table is its heading followed by the rendered table, or by the failure
  line when the table cannot be rendered. The Tables section holds the fragments of the
  tables up to and including the first one that cannot be rendered.
\<close>

definition spec_failure_line :: "py_exception \<Rightarrow> string" where
  "spec_failure_line e = ''\<newline>Failed to process tables: '' @ exc_str e @ ''\<newline>''"

definition renders :: "('t \<Rightarrow> py_exception + string) \<Rightarrow> nat \<times> 't \<Rightarrow> bool" where
  "renders to_markdown x = (case to_markdown (snd x) of Inr rendered \<Rightarrow> True | Inl e \<Rightarrow> False)"

definition spec_table_fragment :: "('t \<Rightarrow> py_exception + string) \<Rightarrow> nat \<times> 't \<Rightarrow> string" where
  "spec_table_fragment to_markdown x =
     ''\<newline>### Table '' @ str_nat (fst x + 1) @ ''\<newline>''
     @ (case to_markdown (snd x) of
          Inr rendered \<Rightarrow> rendered @ ''\<newline>''
        | Inl e \<Rightarrow> spec_failure_line e)"

definition spec_tables_rendered :: "('t \<Rightarrow> py_exception + string) \<Rightarrow> (nat \<times> 't) list \<Rightarrow> string" where
  "spec_tables_rendered to_markdown xs =
     concat (map (spec_table_fragment to_markdown) (takeWhile (renders to_markdown) xs))
     @ (case dropWhile (renders to_markdown) xs of
          [] \<Rightarrow> []
        | x # rest \<Rightarrow> spec_table_fragment to_markdown x)"

definition spec_tables_body ::
  "('t \<Rightarrow> py_exception + string) \<Rightarrow> (py_exception + 't list) \<Rightarrow> string" where
  "spec_tables_body to_markdown outcome =
     (case outcome of
        Inr tables \<Rightarrow> spec_tables_rendered to_markdown (enumerate 0 tables)
      | Inl e \<Rightarrow> spec_failure_line e)"

text \<open>Documents for the examples.\<close>

definition demo_png :: base_image where
  "demo_png = \<lparr>image_bytes = ''PNG'', image_ext = ''png''\<rparr>"

definition demo_jpg :: base_image where
  "demo_jpg = \<lparr>image_bytes = ''JFIF'', image_ext = ''jpeg''\<rparr>"

definition read_pdf_empty :: "nat \<Rightarrow> py_exception + string list" where
  "read_pdf_empty n = Inr []"

definition read_pdf_fails_once :: "nat \<Rightarrow> py_exception + string list" where
  "read_pdf_fails_once n =
     (if n = 0 then Inl (PyExc OtherException ''java not found'') else Inr [''| a |''])"

definition read_pdf_one :: "nat \<Rightarrow> py_exception + string list" where
  "read_pdf_one n = Inr [''| a |'']"

definition plain_doc :: "string local_pdf" where
  "plain_doc = \<lparr>fitz_pages = [[], []], plumber_pages = [Some ''Hello'', None],
     read_pdf = read_pdf_empty\<rparr>"

definition picture_doc :: "string local_pdf" where
  "picture_doc = \<lparr>fitz_pages = [[], [demo_png, demo_jpg]], plumber_pages = [Some ''Hello'', None],
     read_pdf = read_pdf_one\<rparr>"

definition broken_tables_doc :: "string local_pdf" where
  "broken_tables_doc = \<lparr>fitz_pages = [[demo_png]], plumber_pages = [Some ''Hello''],
     read_pdf = read_pdf_fails_once\<rparr>"

definition show_table :: "string \<Rightarrow> py_exception + string" where
  "show_table t = Inr t"

definition show_table_unless_bad :: "string \<Rightarrow> py_exception + string" where
  "show_table_unless_bad t =
     (if t = ''bad'' then Inl (PyExc OtherException ''cannot render'') else Inr t)"

definition read_pdf_three :: "nat \<Rightarrow> py_exception + string list" where
  "read_pdf_three n = Inr [''| a |'', ''bad'', ''| c |'']"

definition three_tables_doc :: "string local_pdf" where
  "three_tables_doc = \<lparr>fitz_pages = [[]], plumber_pages = [None], read_pdf = read_pdf_three\<rparr>"

section \<open>B) Enterprise (Adobe) PDF extraction\<close>

text \<open>
  The result bundle of the extraction job, unpacked: the manifest
  \<open>structuredData.json\<close> (absent, or a dictionary whose \<open>elements\<close> key may be
  missing), the listing of the \<open>tables\<close> folder (each file with the rows of its active
  sheet) and the listing of the \<open>figures\<close> folder (each entry with the answer of
  \<open>os.path.isfile\<close>); a folder that does not exist is \<open>None\<close>. An element may carry
  a \<open>Text\<close> and a \<open>Table\<close>; a table's \<open>Rows\<close> may be missing.
\<close>

record table_element =
  tbl_rows :: "string list list option"

record element =
  el_text :: "string option"
  el_table :: "table_element option"

text \<open>
  A spreadsheet cell as openpyxl returns it with \<open>values_only=True\<close>. A float is kept
  as mantissa and exponent (it is zero exactly when the mantissa is); \<open>XOther\<close> is any
  other object (a date, say), given by its \<open>str\<close>, and is always true.
\<close>

datatype xl_cell =
  XNone | XStr string | XInt int | XFloat int int | XBool bool | XOther string

fun truthy_cell :: "xl_cell \<Rightarrow> bool" where
  "truthy_cell XNone = False"
| "truthy_cell (XStr s) = (s \<noteq> [])"
| "truthy_cell (XInt i) = (i \<noteq> 0)"
| "truthy_cell (XFloat m e) = (m \<noteq> 0)"
| "truthy_cell (XBool b) = b"
| "truthy_cell (XOther s) = True"

definition str_int :: "int \<Rightarrow> string" where
  "str_int i = (if i < 0 then ''-'' @ str_nat (nat (- i)) else str_nat (nat i))"

text \<open>\<open>str(cell)\<close>; \<open>float_str\<close> stands for Python's formatting of a float.\<close>

fun str_cell :: "(int \<Rightarrow> int \<Rightarrow> string) \<Rightarrow> xl_cell \<Rightarrow> string" where
  "str_cell float_str XNone = ''None''"
| "str_cell float_str (XStr s) = s"
| "str_cell float_str (XInt i) = str_int i"
| "str_cell float_str (XFloat m e) = float_str m e"
| "str_cell float_str (XBool b) = (if b then ''True'' else ''False'')"
| "str_cell float_str (XOther s) = s"

record adobe_bundle =
  structured_data :: "element list option option"
  tables_dir :: "(string \<times> xl_cell list list) list option"
  figures_dir :: "(string \<times> bool) list option"


text \<open>The header row of a pipe table and the row of dashes under it.\<close>

definition pipe_row :: "string list \<Rightarrow> string" where
  "pipe_row row = ''| '' @ join '' | '' row @ '' |\<newline>''"

definition dash_row :: "string list \<Rightarrow> string" where
  "dash_row row =
     ''| '' @ join '' | '' (map (\<lambda>col. replicate (length col) CHR ''-'') row) @ '' |\<newline>''"

text \<open>\<open>adobe_zip_to_markdown\<close> (lines 190-249): the rows of a manifest table.\<close>

fun manifest_rows_loop :: "(nat \<times> string list) list \<Rightarrow> string \<Rightarrow> string" where
  "manifest_rows_loop [] md_content = md_content"
| "manifest_rows_loop ((i, row) # rest) md_content =
     (let md1 = md_content @ pipe_row row;
          md2 = (if i = 0 then md1 @ dash_row row else md1)
      in manifest_rows_loop rest md2)"

fun elements_loop :: "element list \<Rightarrow> string \<Rightarrow> string" where
  "elements_loop [] md_content = md_content"
| "elements_loop (el # rest) md_content =
     (let md1 = (case el_text el of
                   Some t \<Rightarrow> md_content @ ''## Text Element\<newline>'' @ t @ ''\<newline>\<newline>''
                 | None \<Rightarrow> md_content);
          md2 = (case el_table el of
                   Some tb \<Rightarrow>
                     (let rows = (case tbl_rows tb of None \<Rightarrow> [] | Some rs \<Rightarrow> rs)
                      in manifest_rows_loop (enumerate 0 rows) (md1 @ ''## Table Element\<newline>'')
                           @ ''\<newline>'')
                 | None \<Rightarrow> md1)
      in elements_loop rest md2)"

text \<open>The rows of a spreadsheet: \<open>str(cell) if cell else ""\<close> for every cell.\<close>

definition row_data_of :: "(int \<Rightarrow> int \<Rightarrow> string) \<Rightarrow> xl_cell list \<Rightarrow> string list" where
  "row_data_of float_str row =
     map (\<lambda>cell. if truthy_cell cell then str_cell float_str cell else []) row"

fun sheet_rows_loop ::
  "(int \<Rightarrow> int \<Rightarrow> string) \<Rightarrow> (nat \<times> xl_cell list) list \<Rightarrow> string \<Rightarrow> string" where
  "sheet_rows_loop float_str [] md_content = md_content"
| "sheet_rows_loop float_str ((i, row) # rest) md_content =
     (let row_data = row_data_of float_str row;
          md1 = md_content @ pipe_row row_data;
          md2 = (if i = 0 then md1 @ dash_row row_data else md1)
      in sheet_rows_loop float_str rest md2)"

fun xlsx_loop ::
  "(int \<Rightarrow> int \<Rightarrow> string) \<Rightarrow> (string \<times> xl_cell list list) list \<Rightarrow> string \<Rightarrow> string" where
  "xlsx_loop float_str [] md_content = md_content"
| "xlsx_loop float_str ((tbl_file, sheet) # rest) md_content =
     xlsx_loop float_str rest
       (if endswith tbl_file ''.xlsx''
        then sheet_rows_loop float_str (enumerate 0 sheet)
               (md_content @ ''## Table from '' @ tbl_file @ ''\<newline>'') @ ''\<newline>''
        else md_content)"

text \<open>The figures: re-hosted, or referenced by their path in the extraction directory.\<close>

fun figures_loop :: "app_env \<Rightarrow> string \<Rightarrow> (string \<times> bool) list \<Rightarrow> string \<Rightarrow> string" where
  "figures_loop env figures_folder [] md_content = md_content"
| "figures_loop env figures_folder ((fig_file, is_file) # rest) md_content =
     (let fig_path = path_join figures_folder fig_file
      in figures_loop env figures_folder rest
           (if is_file
            then (let s3_url = fst (upload_file_to_s3 env fig_path)
                  in if truthy s3_url
                     then md_content @ ''![Figure]('' @ the s3_url @ '')\<newline>\<newline>''
                     else md_content @ ''![Figure]('' @ fig_path @ '')\<newline>\<newline>'')
            else md_content))"

definition adobe_zip_to_markdown ::
  "app_env \<Rightarrow> (int \<Rightarrow> int \<Rightarrow> string) \<Rightarrow> string \<Rightarrow> adobe_bundle \<Rightarrow> py_exception + string" where
  "adobe_zip_to_markdown env float_str zip_file_path bundle =
     (let out_dir = str_replace ''.zip'' [] zip_file_path
      in case structured_data bundle of
           None \<Rightarrow> Inl (PyExc FileNotFoundError ''structuredData.json not found in ZIP extract.'')
         | Some data \<Rightarrow>
             (let md0 = ''# Extracted PDF Data (Enterprise)\<newline>\<newline>'';
                  md1 = elements_loop (case data of None \<Rightarrow> [] | Some els \<Rightarrow> els) md0;
                  md2 = (case tables_dir bundle of
                           None \<Rightarrow> md1
                         | Some files \<Rightarrow> xlsx_loop float_str (sort_key fst files) md1);
                  figures_folder = path_join out_dir ''figures'';
                  md3 = (case figures_dir bundle of
                           None \<Rightarrow> md2
                         | Some files \<Rightarrow>
                             figures_loop env figures_folder (sort_key fst files)
                               (md2 @ ''## Images\<newline>\<newline>''))
              in Inr md3))"


text \<open>Bundles for the examples.\<close>

definition repr_float :: "int \<Rightarrow> int \<Rightarrow> string" where
  "repr_float m e = (if m = 0 then ''0.0'' else ''1.5'')"

definition ab_table :: "string list list" where
  "ab_table = [[''A'', ''B''], [''1'', ''2'']]"

definition table_bundle :: adobe_bundle where
  "table_bundle = \<lparr>structured_data =
       Some (Some [\<lparr>el_text = None, el_table = Some \<lparr>tbl_rows = Some ab_table\<rparr>\<rparr>]),
     tables_dir = None, figures_dir = None\<rparr>"

definition zero_sheet :: "xl_cell list list" where
  "zero_sheet = [[XStr ''Item'', XStr ''Qty''],
                 [XStr ''nut'', XInt 0], [XFloat 0 0, XBool False], [XNone, XInt 7]]"

definition sheet_bundle :: adobe_bundle where
  "sheet_bundle = \<lparr>structured_data = Some (Some []),
     tables_dir = Some [(''t.xlsx'', zero_sheet)], figures_dir = None\<rparr>"


section \<open>C) Open-source website extraction\<close>

text \<open>
  What \<open>requests.get\<close> and BeautifulSoup give for a page: the status code, the
  stripped texts of the \<open>p\<close> elements, for every \<open>img\<close> element its \<open>src\<close>
  attribute if it has one, the \<open>href\<close> of every \<open>a\<close> element that has one, and for
  every \<open>table\<close> the stripped cell texts of its rows. \<open>urljoin\<close> stands for
  \<open>urllib.parse.urljoin\<close>, \<open>to_markdown\<close> for \<open>DataFrame.to_markdown(index=False)\<close>.
  Both are taken to return a string for every argument: this function has no handler
  around them, and the page document is what it returns when they do.
\<close>

record html_page =
  paragraphs :: "string list"
  img_srcs :: "string option list"
  a_hrefs :: "string list"
  html_tables :: "string list list list"

record http_response =
  status_code :: nat
  soup :: html_page

text \<open>
  A pandas frame of strings: the column labels and the rows. A new frame is labelled
  \<open>0, 1, ...\<close>; a short row is filled up with \<open>None\<close>.
\<close>

datatype df_label = IntLabel nat | CellLabel "string option"

record dataframe =
  df_columns :: "df_label list"
  df_rows :: "string option list list"

definition pad_row :: "nat \<Rightarrow> string list \<Rightarrow> string option list" where
  "pad_row n row = map Some row @ replicate (n - length row) None"

definition pd_DataFrame :: "string list list \<Rightarrow> dataframe" where
  "pd_DataFrame table_data =
     (let n = foldr (\<lambda>row m. max (length row) m) table_data 0
      in \<lparr>df_columns = map IntLabel [0..<n], df_rows = map (pad_row n) table_data\<rparr>)"

text \<open>Lines 336-342: the frame of one table, with the first row made the header.\<close>

definition table_to_df :: "string list list \<Rightarrow> dataframe" where
  "table_to_df table_data =
     (let df = pd_DataFrame table_data
      in if length (df_rows df) > 1
         then \<lparr>df_columns = map CellLabel (hd (df_rows df)), df_rows = tl (df_rows df)\<rparr>
         else df)"

fun tables_to_dfs :: "string list list list \<Rightarrow> dataframe list \<Rightarrow> dataframe list" where
  "tables_to_dfs [] extracted_tables = extracted_tables"
| "tables_to_dfs (table_data # rest) extracted_tables =
     tables_to_dfs rest
       (if table_data \<noteq> [] then extracted_tables @ [table_to_df table_data]
        else extracted_tables)"

text \<open>Lines 307-316 and 319-325: the image and link URLs.\<close>

fun image_urls_loop ::
  "(string \<Rightarrow> string \<Rightarrow> string) \<Rightarrow> string \<Rightarrow> string option list \<Rightarrow> string list \<Rightarrow> string list" where
  "image_urls_loop urljoin url [] image_urls = image_urls"
| "image_urls_loop urljoin url (img # rest) image_urls =
     image_urls_loop urljoin url rest
       (case img of
          None \<Rightarrow> image_urls
        | Some src \<Rightarrow>
            image_urls @
              [if startswith src ''//'' then ''https:'' @ src
               else if \<not> (startswith src ''http:'' \<or> startswith src ''https:'')
                    then urljoin url src
                    else src])"

fun link_urls_loop ::
  "(string \<Rightarrow> string \<Rightarrow> string) \<Rightarrow> string \<Rightarrow> string list \<Rightarrow> string list \<Rightarrow> string list" where
  "link_urls_loop urljoin url [] link_urls = link_urls"
| "link_urls_loop urljoin url (href # rest) link_urls =
     link_urls_loop urljoin url rest
       (link_urls @
          [if \<not> (startswith href ''http:'' \<or> startswith href ''https:'')
           then urljoin url href
           else href])"

fun md_images_loop :: "string list \<Rightarrow> string \<Rightarrow> string" where
  "md_images_loop [] md = md"
| "md_images_loop (img_url # rest) md =
     md_images_loop rest (md @ ''![Image]('' @ img_url @ '')\<newline>\<newline>'')"

fun md_links_loop :: "string list \<Rightarrow> string \<Rightarrow> string" where
  "md_links_loop [] md = md"
| "md_links_loop (lnk # rest) md =
     md_links_loop rest (md @ ''- ['' @ lnk @ '']('' @ lnk @ '')\<newline>'')"

fun md_tables_loop :: "(dataframe \<Rightarrow> string) \<Rightarrow> (nat \<times> dataframe) list \<Rightarrow> string \<Rightarrow> string" where
  "md_tables_loop to_markdown [] md = md"
| "md_tables_loop to_markdown ((idx, df_table) # rest) md =
     md_tables_loop to_markdown rest
       (md @ ''### Table '' @ str_nat idx @ ''\<newline>\<newline>''
          @ to_markdown df_table @ ''\<newline>\<newline>'')"

text \<open>
  \<open>open_source_extract_website\<close> (lines 293-363). \<open>requests_get url\<close> is the outcome
  of the request; \<open>raise_for_status\<close> raises for the status codes 400 to 599.
\<close>

definition open_source_extract_website ::
  "(string \<Rightarrow> py_exception + http_response) \<Rightarrow> (string \<Rightarrow> string \<Rightarrow> string)
     \<Rightarrow> (dataframe \<Rightarrow> string) \<Rightarrow> string \<Rightarrow> py_exception + string" where
  "open_source_extract_website requests_get urljoin to_markdown url =
     (case requests_get url of
        Inl e \<Rightarrow> Inl e
      | Inr response \<Rightarrow>
          if 400 \<le> status_code response \<and> status_code response < 600
          then Inl (PyExc HTTPError (str_nat (status_code response)))
          else
            (let text_content = join ''\<newline>'' (paragraphs (soup response));
                 image_urls = image_urls_loop urljoin url (img_srcs (soup response)) [];
                 link_urls = link_urls_loop urljoin url (a_hrefs (soup response)) [];
                 extracted_tables = tables_to_dfs (html_tables (soup response)) [];
                 md0 = ''# Extracted Content from '' @ url @ ''\<newline>\<newline>'';
                 md1 = md0 @ ''## Text Content\<newline>\<newline>'';
                 md2 = md1 @ text_content @ ''\<newline>\<newline>'';
                 md3 = md_images_loop image_urls (md2 @ ''## Images\<newline>\<newline>'');
                 md4 = md_links_loop link_urls (md3 @ ''## Links\<newline>\<newline>'') @ ''\<newline>'';
                 md5 = md_tables_loop to_markdown (enumerate 1 extracted_tables)
                         (md4 @ ''## Tables\<newline>\<newline>'')
             in Inr md5))"

text \<open>The URL that is rendered for one \<open>src\<close> and for one \<open>href\<close>.\<close>

definition spec_resolve_src :: "(string \<Rightarrow> string \<Rightarrow> string) \<Rightarrow> string \<Rightarrow> string \<Rightarrow> string" where
  "spec_resolve_src urljoin url src =
     (if prefix ''//'' src then ''https:'' @ src
      else if prefix ''http:'' src \<or> prefix ''https:'' src then src
      else urljoin url src)"

definition spec_resolve_href :: "(string \<Rightarrow> string \<Rightarrow> string) \<Rightarrow> string \<Rightarrow> string \<Rightarrow> string" where
  "spec_resolve_href urljoin url href =
     (if prefix ''http:'' href \<or> prefix ''https:'' href then href else urljoin url href)"

text \<open>A page and a stand-in for \<open>urljoin\<close> and \<open>to_markdown\<close> for the examples.\<close>

definition join_on_host :: "string \<Rightarrow> string \<Rightarrow> string" where
  "join_on_host base ref =
     ''https://'' @ takeWhile (\<lambda>c. c \<noteq> CHR ''/'') (drop 8 base) @ ref"

definition show_df :: "dataframe \<Rightarrow> string" where
  "show_df df =
     join '','' (map (\<lambda>l. case l of IntLabel n \<Rightarrow> str_nat n
                          | CellLabel c \<Rightarrow> (case c of None \<Rightarrow> ''None'' | Some s \<Rightarrow> s))
                   (df_columns df))
     @ '';'' @ join ''/'' (map (\<lambda>r. join '','' (map (\<lambda>c. case c of None \<Rightarrow> ''None'' | Some s \<Rightarrow> s) r))
                    (df_rows df))"

definition blog_page :: html_page where
  "blog_page = \<lparr>paragraphs = [''Hi'', ''there''],
     img_srcs = [Some ''//cdn.example.com/a.png'', None, Some ''http://y.org/b.png'', Some ''/c.png''],
     a_hrefs = [''/about'', ''https://z.org/''],
     html_tables = [[[''H1'', ''H2''], [''v1'', ''v2'']], [], [[''only'', ''row'']]]\<rparr>"

definition blog_get :: "string \<Rightarrow> py_exception + http_response" where
  "blog_get url = Inr \<lparr>status_code = 200, soup = blog_page\<rparr>"

section \<open>D) Enterprise website extraction\<close>

text \<open>
  The JSON answer of the content-extraction API: the status code and the dictionary,
  whose \<open>objects\<close> key, like every key of an object, an image or a table, may be
  missing. \<open>requests_get endpoint\<close> is the answer to the request.
\<close>

record diffbot_image =
  img_url :: "string option"
  img_caption :: "string option"

record diffbot_table =
  dt_rows :: "string list list option"

record diffbot_object =
  obj_title :: "string option"
  obj_text :: "string option"
  obj_images :: "diffbot_image list option"
  obj_tables :: "diffbot_table list option"

record diffbot_response =
  resp_status :: nat
  resp_objects :: "diffbot_object list option"

definition get_or :: "'a option \<Rightarrow> 'a \<Rightarrow> 'a" where
  "get_or v d = (case v of None \<Rightarrow> d | Some x \<Rightarrow> x)"

text \<open>\<open>enterprise_extract_website\<close> (lines 369-418).\<close>

fun diffbot_images_loop :: "diffbot_image list \<Rightarrow> string \<Rightarrow> string" where
  "diffbot_images_loop [] markdown = markdown"
| "diffbot_images_loop (img # rest) markdown =
     (let url = get_or (img_url img) [];
          caption = get_or (img_caption img) ''Image''
      in diffbot_images_loop rest
           (markdown @ ''!['' @ caption @ '']('' @ url @ '')\<newline>\<newline>''))"

fun diffbot_rows_loop :: "string list list \<Rightarrow> string \<Rightarrow> string" where
  "diffbot_rows_loop [] markdown = markdown"
| "diffbot_rows_loop (row # rest) markdown = diffbot_rows_loop rest (markdown @ pipe_row row)"

fun diffbot_tables_loop :: "diffbot_table list \<Rightarrow> string \<Rightarrow> string" where
  "diffbot_tables_loop [] markdown = markdown"
| "diffbot_tables_loop (table # rest) markdown =
     (let rows = get_or (dt_rows table) []
      in diffbot_tables_loop rest
           (if rows \<noteq> []
            then diffbot_rows_loop (tl rows)
                   (markdown @ pipe_row (hd rows) @ dash_row (hd rows)) @ ''\<newline>''
            else markdown))"

fun objects_loop :: "diffbot_object list \<Rightarrow> string \<Rightarrow> string" where
  "objects_loop [] markdown = markdown"
| "objects_loop (obj # rest) markdown =
     (let title = get_or (obj_title obj) ''Untitled'';
          text = get_or (obj_text obj) [];
          images = get_or (obj_images obj) [];
          tables = get_or (obj_tables obj) [];
          md1 = markdown @ ''# '' @ title @ ''\<newline>\<newline>'';
          md2 = md1 @ text @ ''\<newline>\<newline>'';
          md3 = (if images \<noteq> []
                 then diffbot_images_loop images (md2 @ ''## Images\<newline>\<newline>'')
                 else md2);
          md4 = (if tables \<noteq> []
                 then diffbot_tables_loop tables (md3 @ ''## Tables\<newline>\<newline>'')
                 else md3)
      in objects_loop rest md4)"

definition enterprise_extract_website ::
  "app_env \<Rightarrow> (string \<Rightarrow> diffbot_response) \<Rightarrow> string \<Rightarrow> string option" where
  "enterprise_extract_website env requests_get url =
     (let diffbot_token = secrets_get (st_secrets env) ''DIFFBOT_API_TOKEN'' []
      in if diffbot_token = [] then None
         else
           (let api_endpoint =
                  ''https://api.diffbot.com/v3/article?token='' @ diffbot_token @ ''&url='' @ url;
                resp = requests_get api_endpoint
            in if resp_status resp \<noteq> 200 then None
               else
                 (let objects = get_or (resp_objects resp) [];
                      markdown = objects_loop objects []
                  in if markdown \<noteq> [] then Some markdown else None)))"

text \<open>
  The part of \<open>main\<close> (lines 483-497) that runs the enterprise website extraction:
  the error that is shown, or the Markdown that is shown and offered for download.
\<close>

definition main_enterprise_website ::
  "app_env \<Rightarrow> (string \<Rightarrow> diffbot_response) \<Rightarrow> string \<Rightarrow> string + string" where
  "main_enterprise_website env requests_get url_input =
     (let md_result = enterprise_extract_website env requests_get url_input
      in if \<not> truthy md_result
         then Inl ''Enterprise website extraction failed. Check logs or Diffbot token in secrets.''
         else Inr (the md_result))"

text \<open>An HTTP status code that reports success.\<close>

definition success_status :: "nat \<Rightarrow> bool" where
  "success_status s = (200 \<le> s \<and> s < 300)"

text \<open>Environments and answers for the examples.\<close>

definition diffbot_secrets :: secrets where
  "diffbot_secrets = [''DIFFBOT_API_TOKEN'' \<mapsto> ''tok'']"

definition env_diffbot :: app_env where
  "env_diffbot = \<lparr>st_secrets = diffbot_secrets, boto3_client = client_ok,
     named_temporary_file = tmp_names_a\<rparr>"

definition answer_empty :: "string \<Rightarrow> diffbot_response" where
  "answer_empty endpoint = \<lparr>resp_status = 200, resp_objects = Some []\<rparr>"

definition answer_unavailable :: "string \<Rightarrow> diffbot_response" where
  "answer_unavailable endpoint = \<lparr>resp_status = 503, resp_objects = None\<rparr>"

definition answer_article :: "string \<Rightarrow> diffbot_response" where
  "answer_article endpoint = \<lparr>resp_status = 200, resp_objects =
     Some [\<lparr>obj_title = None, obj_text = Some ''Body'',
            obj_images = Some [\<lparr>img_url = Some ''http://x/i.png'', img_caption = None\<rparr>],
            obj_tables = Some [\<lparr>dt_rows = Some ab_table\<rparr>]\<rparr>]\<rparr>"

text \<open>The lines of a text, as \<open>str.splitlines\<close> gives them for the line break \<open>\n\<close>.\<close>

definition md_lines :: "string \<Rightarrow> string list" where
  "md_lines s =
     foldr (\<lambda>c acc. if c = CHR ''\<newline>'' then [] # acc
                     else (case acc of [] \<Rightarrow> [[c]] | l # ls \<Rightarrow> (c # l) # ls)) s []"

text \<open>The endpoint that \<open>enterprise_extract_website\<close> requests for a URL.\<close>

definition diffbot_endpoint :: "app_env \<Rightarrow> string \<Rightarrow> string" where
  "diffbot_endpoint env url =
     ''https://api.diffbot.com/v3/article?token=''
     @ secrets_get (st_secrets env) ''DIFFBOT_API_TOKEN'' [] @ ''&url='' @ url"

text \<open>The sections of the page document, written down independently of the loops.\<close>

definition spec_images_section :: "(string \<Rightarrow> string \<Rightarrow> string) \<Rightarrow> string \<Rightarrow> string option list \<Rightarrow> string" where
  "spec_images_section urljoin url srcs =
     ''## Images\<newline>\<newline>''
     @ concat (map (\<lambda>src. ''![Image]('' @ spec_resolve_src urljoin url src @ '')\<newline>\<newline>'')
                   (List.map_filter (\<lambda>s. s) srcs))"

definition spec_links_section :: "(string \<Rightarrow> string \<Rightarrow> string) \<Rightarrow> string \<Rightarrow> string list \<Rightarrow> string" where
  "spec_links_section urljoin url hrefs =
     ''## Links\<newline>\<newline>''
     @ concat (map (\<lambda>href. ''- ['' @ spec_resolve_href urljoin url href @ '']('' 
                            @ spec_resolve_href urljoin url href @ '')\<newline>'') hrefs)
     @ ''\<newline>''"

definition spec_html_table_fragment :: "(dataframe \<Rightarrow> string) \<Rightarrow> nat \<times> dataframe \<Rightarrow> string" where
  "spec_html_table_fragment to_markdown x =
     ''### Table '' @ str_nat (fst x) @ ''\<newline>\<newline>'' @ to_markdown (snd x) @ ''\<newline>\<newline>''"

definition spec_tables_section :: "(dataframe \<Rightarrow> string) \<Rightarrow> string list list list \<Rightarrow> string" where
  "spec_tables_section to_markdown tables =
     ''## Tables\<newline>\<newline>''
     @ concat (map (spec_html_table_fragment to_markdown)
                   (enumerate 1 (map table_to_df (filter (\<lambda>t. t \<noteq> []) tables))))"

definition table_width :: "string list list \<Rightarrow> nat" where
  "table_width table_data = foldr (\<lambda>row m. max (length row) m) table_data 0"








section \<open>Properties\<close>

subsection \<open>Asset re-hosting\<close>

lemma upload_unconfigured:
  "\<not> s3_configured env \<Longrightarrow> upload_file_to_s3 env file_path = (None, [])"
  by (auto simp: upload_file_to_s3_def s3_configured_def Let_def)

lemma upload_success:
  assumes "s3_configured env" and "s3_outcome env file_path = Inr u"
  shows "upload_file_to_s3 env file_path =
    (Some (''https://'' @ secrets_get (st_secrets env) ''S3_BUCKET_NAME'' []
           @ ''.s3.amazonaws.com/'' @ basename file_path),
     [(file_path, secrets_get (st_secrets env) ''S3_BUCKET_NAME'' [], basename file_path)])"
  using assms by (simp add: upload_file_to_s3_def s3_configured_def s3_outcome_def Let_def)

lemma upload_failure:
  assumes "s3_configured env" and "s3_outcome env file_path = Inl e"
  shows "upload_file_to_s3 env file_path =
    (None, [(file_path, secrets_get (st_secrets env) ''S3_BUCKET_NAME'' [], basename file_path)])"
proof -
  obtain c m where e: "e = PyExc c m" by (cases e)
  show ?thesis
    using assms unfolding e
    by (cases c) (simp_all add: upload_file_to_s3_def s3_configured_def s3_outcome_def Let_def)
qed

lemma upload_url_nonempty: "fst (upload_file_to_s3 env file_path) \<noteq> Some []"
proof (cases "s3_configured env")
  case False
  then show ?thesis by (simp add: upload_unconfigured)
next
  case True
  show ?thesis
  proof (cases "s3_outcome env file_path")
    case (Inl e)
    with True show ?thesis by (simp add: upload_failure)
  next
    case (Inr u)
    with True show ?thesis by (simp add: upload_success)
  qed
qed

lemma basename_demo: "basename ''/tmp/tmpab12.png'' = ''tmpab12.png''"
  by (simp add: basename_def)

lemma demo_secrets_get:
  "secrets_get demo_secrets ''S3_BUCKET_NAME'' [] = ''bkt''"
  "secrets_get demo_secrets ''AWS_ACCESS_KEY_ID'' [] = ''AK''"
  "secrets_get demo_secrets ''AWS_SECRET_ACCESS_KEY'' [] = ''SK''"
  "secrets_get demo_secrets ''AWS_DEFAULT_REGION'' ''us-east-1'' = ''us-east-1''"
  by (simp_all add: secrets_get_def demo_secrets_def)

lemma env_ok_configured: "s3_configured env_ok"
  by (simp add: s3_configured_def env_ok_def demo_secrets_get)

lemma env_failing_configured: "s3_configured env_failing"
  by (simp add: s3_configured_def env_failing_def demo_secrets_get)

lemma env_unconfigured_not_configured: "\<not> s3_configured env_unconfigured"
  by (simp add: s3_configured_def env_unconfigured_def no_secrets_def secrets_get_def)

lemma env_ok_outcome: "s3_outcome env_ok p = Inr ()"
  by (simp add: s3_outcome_def env_ok_def client_ok_def)

lemma env_failing_outcome: "s3_outcome env_failing p = Inl (PyExc OtherException ''timed out'')"
  by (simp add: s3_outcome_def env_failing_def client_transport_error_def)

text \<open>
  C3. The re-hosting operation makes an upload call exactly when bucket name, access key
  and secret key are all set (to a non-empty value), and then it makes exactly one call,
  for the given file under its basename. When a setting is missing it returns no URL and
  makes no call. When the upload call returns, the result is
  \<open>https://<bucket>.s3.amazonaws.com/<basename of the file>\<close>. When the upload call
  raises (a missing file, missing credentials, or any other exception), the result is no
  URL; the operation itself always returns a value.
\<close>

theorem C3_upload_file_to_s3:
  "(snd (upload_file_to_s3 env file_path) \<noteq> [] \<longleftrightarrow> s3_configured env)
   \<and> (s3_configured env \<longrightarrow>
        snd (upload_file_to_s3 env file_path) =
          [(file_path, secrets_get (st_secrets env) ''S3_BUCKET_NAME'' [], basename file_path)])
   \<and> (\<not> s3_configured env \<longrightarrow> upload_file_to_s3 env file_path = (None, []))
   \<and> (s3_configured env \<and> s3_outcome env file_path = Inr () \<longrightarrow>
        fst (upload_file_to_s3 env file_path) =
          Some (''https://'' @ secrets_get (st_secrets env) ''S3_BUCKET_NAME'' []
                @ ''.s3.amazonaws.com/'' @ basename file_path))
   \<and> (\<forall>e. s3_configured env \<and> s3_outcome env file_path = Inl e \<longrightarrow>
        fst (upload_file_to_s3 env file_path) = None)"
proof (cases "s3_configured env")
  case False
  then show ?thesis by (simp add: upload_unconfigured)
next
  case True
  show ?thesis
  proof (cases "s3_outcome env file_path")
    case (Inl e)
    with True show ?thesis by (simp add: upload_failure)
  next
    case (Inr u)
    with True show ?thesis by (simp add: upload_success)
  qed
qed

theorem C3_upload_file_to_s3_witness:
  "upload_file_to_s3 env_ok ''/tmp/tmpab12.png''
     = (Some ''https://bkt.s3.amazonaws.com/tmpab12.png'',
        [(''/tmp/tmpab12.png'', ''bkt'', ''tmpab12.png'')])
   \<and> upload_file_to_s3 env_failing ''/tmp/tmpab12.png''
     = (None, [(''/tmp/tmpab12.png'', ''bkt'', ''tmpab12.png'')])
   \<and> upload_file_to_s3 env_unconfigured ''/tmp/tmpab12.png'' = (None, [])"
proof -
  have a: "upload_file_to_s3 env_ok ''/tmp/tmpab12.png''
     = (Some ''https://bkt.s3.amazonaws.com/tmpab12.png'',
        [(''/tmp/tmpab12.png'', ''bkt'', ''tmpab12.png'')])"
    using C3_upload_file_to_s3 [of env_ok "''/tmp/tmpab12.png''"]
      env_ok_configured env_ok_outcome [of "''/tmp/tmpab12.png''"]
    by (simp add: prod_eq_iff env_ok_def demo_secrets_get basename_demo)
  have b: "upload_file_to_s3 env_failing ''/tmp/tmpab12.png''
     = (None, [(''/tmp/tmpab12.png'', ''bkt'', ''tmpab12.png'')])"
    using C3_upload_file_to_s3 [of env_failing "''/tmp/tmpab12.png''"]
      env_failing_configured env_failing_outcome [of "''/tmp/tmpab12.png''"]
    by (simp add: prod_eq_iff env_failing_def demo_secrets_get basename_demo)
  have c: "upload_file_to_s3 env_unconfigured ''/tmp/tmpab12.png'' = (None, [])"
    using C3_upload_file_to_s3 [of env_unconfigured "''/tmp/tmpab12.png''"]
      env_unconfigured_not_configured
    by simp
  from a b c show ?thesis by simp
qed

subsection \<open>Local-document assembler\<close>

lemma str_nat_digits:
  "str_nat 0 = ''0''" "str_nat 1 = ''1''" "str_nat 2 = ''2''" "str_nat 3 = ''3''"
  "str_nat 10 = ''10''"
  by code_simp+

lemma rehost_not_empty: "rehost env p i img \<noteq> Some []"
  unfolding rehost_def by (rule upload_url_nonempty)

lemma truthy_rehost: "truthy (rehost env p i img) \<longleftrightarrow> rehost env p i img \<noteq> None"
  using rehost_not_empty [of env p i img]
  by (cases "rehost env p i img") (auto simp: truthy_def)

lemma rehost_unconfigured: "\<not> s3_configured env \<Longrightarrow> rehost env p i img = None"
  by (simp add: rehost_def upload_unconfigured)

lemma images_loop_step:
  "images_loop env page_num (x # rest) md =
     images_loop env page_num rest (md @ spec_image_fragment env page_num x)"
proof (cases x)
  case (Pair i img)
  show ?thesis
  proof (cases "rehost env page_num i img")
    case None
    then show ?thesis
      using truthy_rehost [of env page_num i img] unfolding Pair
      by (simp add: Let_def spec_image_fragment_def spec_image_warning_def rehost_def)
  next
    case (Some url)
    then show ?thesis
      using truthy_rehost [of env page_num i img] unfolding Pair
      by (simp add: Let_def spec_image_fragment_def spec_image_line_def rehost_def)
  qed
qed

lemma images_loop_eq:
  "images_loop env page_num xs md = md @ concat (map (spec_image_fragment env page_num) xs)"
proof (induction xs arbitrary: md)
  case Nil
  show ?case by simp
next
  case (Cons x xs)
  show ?case
    unfolding images_loop_step by (simp add: Cons.IH)
qed

lemma pages_loop_eq:
  "pages_loop env pgs md =
     md @ concat (map (\<lambda>pg. concat (map (spec_image_fragment env (fst pg)) (enumerate 0 (snd pg)))) pgs)"
proof (induction pgs arbitrary: md)
  case Nil
  show ?case by simp
next
  case (Cons pg pgs)
  obtain p imgs where pg: "pg = (p, imgs)" by (cases pg)
  show ?case
    unfolding pg by (simp add: Cons.IH images_loop_eq)
qed

lemma extract_images_to_md_eq:
  "extract_images_to_md env doc =
     ''\<newline>## Extracted Images\<newline>'' @ spec_images_body env (fitz_pages doc)"
  by (simp add: extract_images_to_md_def spec_images_body_def pages_loop_eq)

text \<open>
  C2. The Images section is the heading followed, for the pages in order and within a
  page for the images in discovery order, by one fragment per image. When re-hosting
  returns a URL the fragment is the single line
  \<open>![Image page <p> - <i>](<url>)\<close> with the 1-based page number and the 1-based
  image index; when re-hosting returns no URL the fragment is the bold warning line
  naming that page number and index (after an empty line). Without object-storage
  configuration re-hosting returns no URL for every image. The assembler is a total
  function: whatever the upload does, it returns the string.
\<close>

theorem C2_extract_images_to_md:
  "extract_images_to_md env doc =
     ''\<newline>## Extracted Images\<newline>''
     @ concat (map (\<lambda>pg. concat (map (spec_image_fragment env (fst pg)) (enumerate 0 (snd pg))))
                   (enumerate 0 (fitz_pages doc)))
   \<and> (\<forall>p i img url. rehost env p i img = Some url \<longrightarrow>
         spec_image_fragment env p (i, img) =
           ''![Image page '' @ str_nat (p + 1) @ '' - '' @ str_nat (i + 1)
             @ '']('' @ url @ '')\<newline>'')
   \<and> (\<forall>p i img. rehost env p i img = None \<longrightarrow>
         spec_image_fragment env p (i, img) =
           ''\<newline>**[Warning: Failed to upload image (page '' @ str_nat (p + 1)
             @ '', index '' @ str_nat (i + 1) @ '') to S3]**\<newline>'')
   \<and> (\<not> s3_configured env \<longrightarrow> (\<forall>p i img. rehost env p i img = None))"
proof -
  have a: "extract_images_to_md env doc =
     ''\<newline>## Extracted Images\<newline>''
     @ concat (map (\<lambda>pg. concat (map (spec_image_fragment env (fst pg)) (enumerate 0 (snd pg))))
                   (enumerate 0 (fitz_pages doc)))"
    using extract_images_to_md_eq [of env doc] by (simp add: spec_images_body_def)
  have b: "\<forall>p i img url. rehost env p i img = Some url \<longrightarrow>
         spec_image_fragment env p (i, img) =
           ''![Image page '' @ str_nat (p + 1) @ '' - '' @ str_nat (i + 1)
             @ '']('' @ url @ '')\<newline>''"
    by (simp add: spec_image_fragment_def spec_image_line_def)
  have c: "\<forall>p i img. rehost env p i img = None \<longrightarrow>
         spec_image_fragment env p (i, img) =
           ''\<newline>**[Warning: Failed to upload image (page '' @ str_nat (p + 1)
             @ '', index '' @ str_nat (i + 1) @ '') to S3]**\<newline>''"
    by (simp add: spec_image_fragment_def spec_image_warning_def)
  have d: "\<not> s3_configured env \<longrightarrow> (\<forall>p i img. rehost env p i img = None)"
    by (simp add: rehost_unconfigured)
  from a b c d show ?thesis by blast
qed

theorem C2_extract_images_to_md_witness:
  "extract_images_to_md env_ok picture_doc =
     ''\<newline>## Extracted Images\<newline>![Image page 2 - 1](https://bkt.s3.amazonaws.com/tmpa1_0.png)\<newline>![Image page 2 - 2](https://bkt.s3.amazonaws.com/tmpa1_1.jpeg)\<newline>''
   \<and> extract_images_to_md env_unconfigured picture_doc =
     ''\<newline>## Extracted Images\<newline>\<newline>**[Warning: Failed to upload image (page 2, index 1) to S3]**\<newline>\<newline>**[Warning: Failed to upload image (page 2, index 2) to S3]**\<newline>''
   \<and> rehost env_ok 1 0 demo_png = Some ''https://bkt.s3.amazonaws.com/tmpa1_0.png''
   \<and> spec_image_fragment env_ok 1 (0, demo_png) =
     ''![Image page 2 - 1](https://bkt.s3.amazonaws.com/tmpa1_0.png)\<newline>''
   \<and> rehost env_failing 1 0 demo_png = None
   \<and> spec_image_fragment env_failing 1 (0, demo_png) =
     ''\<newline>**[Warning: Failed to upload image (page 2, index 1) to S3]**\<newline>''
   \<and> rehost env_unconfigured 1 0 demo_png = None"
proof -
  have "extract_images_to_md env_ok picture_doc =
     ''\<newline>## Extracted Images\<newline>''
     @ concat (map (\<lambda>pg. concat (map (spec_image_fragment env_ok (fst pg)) (enumerate 0 (snd pg))))
                   (enumerate 0 (fitz_pages picture_doc)))"
    using C2_extract_images_to_md [of env_ok picture_doc] by blast
  also have "\<dots> = ''\<newline>## Extracted Images\<newline>![Image page 2 - 1](https://bkt.s3.amazonaws.com/tmpa1_0.png)\<newline>![Image page 2 - 2](https://bkt.s3.amazonaws.com/tmpa1_1.jpeg)\<newline>''"
    by code_simp
  finally have ok: "extract_images_to_md env_ok picture_doc =
     ''\<newline>## Extracted Images\<newline>![Image page 2 - 1](https://bkt.s3.amazonaws.com/tmpa1_0.png)\<newline>![Image page 2 - 2](https://bkt.s3.amazonaws.com/tmpa1_1.jpeg)\<newline>''" .
  have "extract_images_to_md env_unconfigured picture_doc =
     ''\<newline>## Extracted Images\<newline>''
     @ concat (map (\<lambda>pg. concat (map (spec_image_fragment env_unconfigured (fst pg)) (enumerate 0 (snd pg))))
                   (enumerate 0 (fitz_pages picture_doc)))"
    using C2_extract_images_to_md [of env_unconfigured picture_doc] by blast
  also have "\<dots> = ''\<newline>## Extracted Images\<newline>\<newline>**[Warning: Failed to upload image (page 2, index 1) to S3]**\<newline>\<newline>**[Warning: Failed to upload image (page 2, index 2) to S3]**\<newline>''"
    by code_simp
  finally have un: "extract_images_to_md env_unconfigured picture_doc =
     ''\<newline>## Extracted Images\<newline>\<newline>**[Warning: Failed to upload image (page 2, index 1) to S3]**\<newline>\<newline>**[Warning: Failed to upload image (page 2, index 2) to S3]**\<newline>''" .
  have r: "rehost env_ok 1 0 demo_png = Some ''https://bkt.s3.amazonaws.com/tmpa1_0.png''"
    by code_simp
  have "spec_image_fragment env_ok 1 (0, demo_png) =
           ''![Image page '' @ str_nat (1 + 1) @ '' - '' @ str_nat (0 + 1)
             @ '']('' @ ''https://bkt.s3.amazonaws.com/tmpa1_0.png'' @ '')\<newline>''"
    using C2_extract_images_to_md [of env_ok picture_doc] r by blast
  also have "\<dots> = ''![Image page 2 - 1](https://bkt.s3.amazonaws.com/tmpa1_0.png)\<newline>''"
    by code_simp
  finally have line: "spec_image_fragment env_ok 1 (0, demo_png) =
     ''![Image page 2 - 1](https://bkt.s3.amazonaws.com/tmpa1_0.png)\<newline>''" .
  have f: "rehost env_failing 1 0 demo_png = None"
    by code_simp
  have "spec_image_fragment env_failing 1 (0, demo_png) =
           ''\<newline>**[Warning: Failed to upload image (page '' @ str_nat (1 + 1)
             @ '', index '' @ str_nat (0 + 1) @ '') to S3]**\<newline>''"
    using C2_extract_images_to_md [of env_failing picture_doc] f by blast
  also have "\<dots> = ''\<newline>**[Warning: Failed to upload image (page 2, index 1) to S3]**\<newline>''"
    by code_simp
  finally have warn: "spec_image_fragment env_failing 1 (0, demo_png) =
     ''\<newline>**[Warning: Failed to upload image (page 2, index 1) to S3]**\<newline>''" .
  have none: "rehost env_unconfigured 1 0 demo_png = None"
    using C2_extract_images_to_md [of env_unconfigured picture_doc]
      env_unconfigured_not_configured by blast
  from ok un r line f warn none show ?thesis by blast
qed

lemma text_loop_step:
  "text_loop (x # rest) md = text_loop rest (md @ spec_page_fragment x)"
proof (cases x)
  case (Pair n extracted)
  show ?thesis
    unfolding Pair
    by (cases extracted) (simp_all add: Let_def truthy_def spec_page_fragment_def)
qed

lemma text_loop_eq: "text_loop xs md = md @ concat (map spec_page_fragment xs)"
proof (induction xs arbitrary: md)
  case Nil
  show ?case by simp
next
  case (Cons x xs)
  show ?case
    unfolding text_loop_step by (simp add: Cons.IH)
qed

lemma extract_text_to_md_eq:
  "extract_text_to_md doc = ''\<newline>## Extracted Text\<newline>'' @ spec_text_body (plumber_pages doc)"
  by (simp add: extract_text_to_md_def spec_text_body_def text_loop_eq)

lemma tables_loop_eq:
  "(case snd (tables_loop to_markdown xs md) of
      None \<Rightarrow> fst (tables_loop to_markdown xs md)
    | Some e \<Rightarrow> fst (tables_loop to_markdown xs md) @ spec_failure_line e)
   = md @ spec_tables_rendered to_markdown xs"
proof (induction xs arbitrary: md)
  case Nil
  show ?case by (simp add: spec_tables_rendered_def)
next
  case (Cons x xs)
  obtain i t where x: "x = (i, t)" by (cases x)
  show ?case
  proof (cases "to_markdown t")
    case (Inl e)
    then show ?thesis
      unfolding x
      by (simp add: spec_tables_rendered_def renders_def spec_table_fragment_def)
  next
    case (Inr rendered)
    let ?md = "md @ ''\<newline>### Table '' @ str_nat (i + 1) @ ''\<newline>'' @ rendered @ ''\<newline>''"
    have step: "tables_loop to_markdown ((i, t) # xs) md = tables_loop to_markdown xs ?md"
      using Inr by simp
    have r: "?md @ spec_tables_rendered to_markdown xs
               = md @ spec_tables_rendered to_markdown ((i, t) # xs)"
      using Inr by (simp add: spec_tables_rendered_def renders_def spec_table_fragment_def)
    have "(case snd (tables_loop to_markdown xs ?md) of
             None \<Rightarrow> fst (tables_loop to_markdown xs ?md)
           | Some e \<Rightarrow> fst (tables_loop to_markdown xs ?md) @ spec_failure_line e)
          = ?md @ spec_tables_rendered to_markdown xs"
      by (rule Cons.IH)
    also note r
    finally show ?thesis
      unfolding x step .
  qed
qed

lemma extract_tables_to_md_eq:
  "extract_tables_to_md to_markdown doc =
     ''\<newline>## Extracted Tables\<newline>'' @ spec_tables_body to_markdown (read_pdf doc 0)"
proof (cases "read_pdf doc 0")
  case (Inl e)
  then show ?thesis
    by (simp add: extract_tables_to_md_def spec_tables_body_def spec_failure_line_def)
next
  case (Inr tables)
  let ?r = "tables_loop to_markdown (enumerate 0 tables) ''\<newline>## Extracted Tables\<newline>''"
  have "extract_tables_to_md to_markdown doc =
          (case snd ?r of None \<Rightarrow> fst ?r | Some e \<Rightarrow> fst ?r @ spec_failure_line e)"
    using Inr
    by (simp add: extract_tables_to_md_def Let_def spec_failure_line_def split: option.splits)
  also have "\<dots> = ''\<newline>## Extracted Tables\<newline>''
                      @ spec_tables_rendered to_markdown (enumerate 0 tables)"
    by (rule tables_loop_eq)
  finally show ?thesis
    using Inr by (simp add: spec_tables_body_def)
qed

text \<open>
  When every table is rendered, the Tables section is one fragment per table, in order.
  When a table cannot be rendered, the fragments written before it stay and the failure
  line follows the heading of that table.
\<close>

lemma spec_tables_rendered_all:
  assumes "list_all (renders to_markdown) xs"
  shows "spec_tables_rendered to_markdown xs = concat (map (spec_table_fragment to_markdown) xs)"
proof -
  have t: "takeWhile (renders to_markdown) xs = xs"
    using assms by (simp add: takeWhile_eq_all_conv list_all_iff)
  have d: "dropWhile (renders to_markdown) xs = []"
    using assms by (simp add: list_all_iff)
  show ?thesis by (simp add: spec_tables_rendered_def t d)
qed

lemma extract_tables_render_failure:
  "extract_tables_to_md show_table_unless_bad three_tables_doc =
     ''\<newline>## Extracted Tables\<newline>\<newline>### Table 1\<newline>| a |\<newline>\<newline>### Table 2\<newline>\<newline>Failed to process tables: cannot render\<newline>''"
  by code_simp

lemma no_images_body_gen:
  "list_all (\<lambda>imgs. imgs = []) pages \<Longrightarrow>
   concat (map (\<lambda>pg. concat (map (f (fst pg)) (enumerate 0 (snd pg)))) (enumerate n pages)) = []"
  by (induction pages arbitrary: n) simp_all

lemma no_images_body:
  "list_all (\<lambda>imgs. imgs = []) pages \<Longrightarrow> spec_images_body env pages = []"
  unfolding spec_images_body_def by (rule no_images_body_gen)

lemma open_source_extract_pdf_eq:
  "open_source_extract_pdf env to_markdown pdf_path doc =
     ''# Extracted Content from '' @ basename pdf_path @ ''\<newline>''
     @ ''\<newline>## Extracted Images\<newline>'' @ spec_images_body env (fitz_pages doc)
     @ ''\<newline>## Extracted Text\<newline>'' @ spec_text_body (plumber_pages doc)
     @ ''\<newline>## Extracted Tables\<newline>'' @ spec_tables_body to_markdown (read_pdf doc 0)"
  by (simp add: open_source_extract_pdf_def Let_def extract_images_to_md_eq
      extract_text_to_md_eq extract_tables_to_md_eq)

text \<open>
  C1. For every document the local-document assembler returns the title line
  \<open># Extracted Content from <filename>\<close>, then the heading \<open>## Extracted Images\<close>
  with the image fragments, then the heading \<open>## Extracted Text\<close> with the page
  fragments, then the heading \<open>## Extracted Tables\<close> with the table fragments, in this
  order. For a document without images and without tables the Images and the Tables
  heading are still there and nothing stands between the Images heading and the Text
  heading, nor after the Tables heading.
\<close>

theorem C1_open_source_extract_pdf:
  "open_source_extract_pdf env to_markdown pdf_path doc =
     ''# Extracted Content from '' @ basename pdf_path @ ''\<newline>''
     @ ''\<newline>## Extracted Images\<newline>'' @ spec_images_body env (fitz_pages doc)
     @ ''\<newline>## Extracted Text\<newline>'' @ spec_text_body (plumber_pages doc)
     @ ''\<newline>## Extracted Tables\<newline>'' @ spec_tables_body to_markdown (read_pdf doc 0)
   \<and> (list_all (\<lambda>imgs. imgs = []) (fitz_pages doc) \<and> read_pdf doc 0 = Inr [] \<longrightarrow>
        open_source_extract_pdf env to_markdown pdf_path doc =
          ''# Extracted Content from '' @ basename pdf_path @ ''\<newline>''
          @ ''\<newline>## Extracted Images\<newline>''
          @ ''\<newline>## Extracted Text\<newline>'' @ spec_text_body (plumber_pages doc)
          @ ''\<newline>## Extracted Tables\<newline>'')"
proof -
  have gen: "open_source_extract_pdf env to_markdown pdf_path doc =
     ''# Extracted Content from '' @ basename pdf_path @ ''\<newline>''
     @ ''\<newline>## Extracted Images\<newline>'' @ spec_images_body env (fitz_pages doc)
     @ ''\<newline>## Extracted Text\<newline>'' @ spec_text_body (plumber_pages doc)
     @ ''\<newline>## Extracted Tables\<newline>'' @ spec_tables_body to_markdown (read_pdf doc 0)"
    by (rule open_source_extract_pdf_eq)
  have empty: "open_source_extract_pdf env to_markdown pdf_path doc =
          ''# Extracted Content from '' @ basename pdf_path @ ''\<newline>''
          @ ''\<newline>## Extracted Images\<newline>''
          @ ''\<newline>## Extracted Text\<newline>'' @ spec_text_body (plumber_pages doc)
          @ ''\<newline>## Extracted Tables\<newline>''"
    if h: "list_all (\<lambda>imgs. imgs = []) (fitz_pages doc)" "read_pdf doc 0 = Inr []"
  proof -
    have i: "spec_images_body env (fitz_pages doc) = []"
      using h(1) by (rule no_images_body)
    have t: "spec_tables_body to_markdown (read_pdf doc 0) = []"
      using h(2) by (simp add: spec_tables_body_def spec_tables_rendered_def)
    show ?thesis
      unfolding gen i t by simp
  qed
  from gen empty show ?thesis by blast
qed

theorem C1_open_source_extract_pdf_witness:
  "open_source_extract_pdf env_unconfigured show_table ''/tmp/tmpx9.pdf'' plain_doc =
     ''# Extracted Content from tmpx9.pdf\<newline>\<newline>## Extracted Images\<newline>\<newline>## Extracted Text\<newline>\<newline>### Page 1\<newline>```\<newline>Hello\<newline>```\<newline>\<newline>### Page 2\<newline>```\<newline>\<newline>```\<newline>\<newline>## Extracted Tables\<newline>''"
proof -
  have h: "list_all (\<lambda>imgs. imgs = []) (fitz_pages plain_doc) \<and> read_pdf plain_doc 0 = Inr []"
    by (simp add: plain_doc_def read_pdf_empty_def)
  have "open_source_extract_pdf env_unconfigured show_table ''/tmp/tmpx9.pdf'' plain_doc =
          ''# Extracted Content from '' @ basename ''/tmp/tmpx9.pdf'' @ ''\<newline>''
          @ ''\<newline>## Extracted Images\<newline>''
          @ ''\<newline>## Extracted Text\<newline>'' @ spec_text_body (plumber_pages plain_doc)
          @ ''\<newline>## Extracted Tables\<newline>''"
    using C1_open_source_extract_pdf [of env_unconfigured show_table "''/tmp/tmpx9.pdf''" plain_doc] h
    by blast
  also have "\<dots> = ''# Extracted Content from tmpx9.pdf\<newline>\<newline>## Extracted Images\<newline>\<newline>## Extracted Text\<newline>\<newline>### Page 1\<newline>```\<newline>Hello\<newline>```\<newline>\<newline>### Page 2\<newline>```\<newline>\<newline>```\<newline>\<newline>## Extracted Tables\<newline>''"
    by code_simp
  finally show ?thesis .
qed

lemma extract_images_ignores_tables:
  "extract_images_to_md env (doc\<lparr>read_pdf := rp\<rparr>) = extract_images_to_md env doc"
  by (simp add: extract_images_to_md_def)

lemma extract_text_ignores_tables:
  "extract_text_to_md (doc\<lparr>read_pdf := rp\<rparr>) = extract_text_to_md doc"
  by (simp add: extract_text_to_md_def)

lemma extract_tables_first_call_only:
  "rp 0 = read_pdf doc 0 \<Longrightarrow>
   extract_tables_to_md to_markdown (doc\<lparr>read_pdf := rp\<rparr>) = extract_tables_to_md to_markdown doc"
  by (simp add: extract_tables_to_md_def)

text \<open>
  C8. When table extraction (\<open>read_pdf\<close>) raises, the Tables section is its heading
  followed by the single failure line \<open>Failed to process tables: <message>\<close> (after an
  empty line) and nothing else; the assembler still returns the whole document: the
  title, the Images section and the Text section are the ones of the same document with
  any other table outcome. \<open>read_pdf\<close> is not called again: what a second call
  would return has no influence on the result. Table extraction is the call of
  \<open>read_pdf\<close>; nothing is assumed about \<open>to_markdown\<close>, which is not reached.
\<close>

theorem C8_extract_tables_failure:
  assumes "read_pdf doc 0 = Inl e"
  shows "extract_tables_to_md to_markdown doc =
           ''\<newline>## Extracted Tables\<newline>''
           @ ''\<newline>Failed to process tables: '' @ exc_str e @ ''\<newline>''
       \<and> open_source_extract_pdf env to_markdown pdf_path doc =
           ''# Extracted Content from '' @ basename pdf_path @ ''\<newline>''
           @ extract_images_to_md env doc @ extract_text_to_md doc
           @ ''\<newline>## Extracted Tables\<newline>''
           @ ''\<newline>Failed to process tables: '' @ exc_str e @ ''\<newline>''
       \<and> (\<forall>rp. extract_images_to_md env (doc\<lparr>read_pdf := rp\<rparr>) = extract_images_to_md env doc
              \<and> extract_text_to_md (doc\<lparr>read_pdf := rp\<rparr>) = extract_text_to_md doc)
       \<and> (\<forall>rp. rp 0 = read_pdf doc 0 \<longrightarrow>
              open_source_extract_pdf env to_markdown pdf_path (doc\<lparr>read_pdf := rp\<rparr>) =
              open_source_extract_pdf env to_markdown pdf_path doc)"
proof -
  have t: "extract_tables_to_md to_markdown doc =
           ''\<newline>## Extracted Tables\<newline>''
           @ ''\<newline>Failed to process tables: '' @ exc_str e @ ''\<newline>''"
    using assms by (simp add: extract_tables_to_md_def)
  have whole: "open_source_extract_pdf env to_markdown pdf_path doc =
           ''# Extracted Content from '' @ basename pdf_path @ ''\<newline>''
           @ extract_images_to_md env doc @ extract_text_to_md doc
           @ ''\<newline>## Extracted Tables\<newline>''
           @ ''\<newline>Failed to process tables: '' @ exc_str e @ ''\<newline>''"
    unfolding open_source_extract_pdf_def Let_def t by simp
  have rest: "\<forall>rp. extract_images_to_md env (doc\<lparr>read_pdf := rp\<rparr>) = extract_images_to_md env doc
              \<and> extract_text_to_md (doc\<lparr>read_pdf := rp\<rparr>) = extract_text_to_md doc"
    by (simp add: extract_images_ignores_tables extract_text_ignores_tables)
  have once: "\<forall>rp. rp 0 = read_pdf doc 0 \<longrightarrow>
              open_source_extract_pdf env to_markdown pdf_path (doc\<lparr>read_pdf := rp\<rparr>) =
              open_source_extract_pdf env to_markdown pdf_path doc"
    by (simp add: open_source_extract_pdf_def Let_def extract_images_ignores_tables
        extract_text_ignores_tables extract_tables_first_call_only)
  from t whole rest once show ?thesis by blast
qed

theorem C8_extract_tables_failure_witness:
  "read_pdf broken_tables_doc 1 = Inr [''| a |'']
   \<and> extract_tables_to_md show_table broken_tables_doc =
       ''\<newline>## Extracted Tables\<newline>\<newline>Failed to process tables: java not found\<newline>''
   \<and> open_source_extract_pdf env_unconfigured show_table ''/tmp/tmpx9.pdf'' broken_tables_doc =
       ''# Extracted Content from tmpx9.pdf\<newline>\<newline>## Extracted Images\<newline>\<newline>**[Warning: Failed to upload image (page 1, index 1) to S3]**\<newline>\<newline>## Extracted Text\<newline>\<newline>### Page 1\<newline>```\<newline>Hello\<newline>```\<newline>\<newline>## Extracted Tables\<newline>\<newline>Failed to process tables: java not found\<newline>''
   \<and> open_source_extract_pdf env_unconfigured show_table ''/tmp/tmpx9.pdf''
         (broken_tables_doc\<lparr>read_pdf := \<lambda>n. Inl (PyExc OtherException ''java not found'')\<rparr>) =
       open_source_extract_pdf env_unconfigured show_table ''/tmp/tmpx9.pdf'' broken_tables_doc"
proof -
  have h: "read_pdf broken_tables_doc 0 = Inl (PyExc OtherException ''java not found'')"
    by (simp add: broken_tables_doc_def read_pdf_fails_once_def)
  have later: "read_pdf broken_tables_doc 1 = Inr [''| a |'']"
    by (simp add: broken_tables_doc_def read_pdf_fails_once_def)
  note c8 = C8_extract_tables_failure [OF h, of show_table env_unconfigured "''/tmp/tmpx9.pdf''"]
  have t: "extract_tables_to_md show_table broken_tables_doc =
       ''\<newline>## Extracted Tables\<newline>\<newline>Failed to process tables: java not found\<newline>''"
    using c8 by simp
  have "open_source_extract_pdf env_unconfigured show_table ''/tmp/tmpx9.pdf'' broken_tables_doc =
           ''# Extracted Content from '' @ basename ''/tmp/tmpx9.pdf'' @ ''\<newline>''
           @ extract_images_to_md env_unconfigured broken_tables_doc
           @ extract_text_to_md broken_tables_doc
           @ ''\<newline>## Extracted Tables\<newline>''
           @ ''\<newline>Failed to process tables: '' @ exc_str (PyExc OtherException ''java not found'')
           @ ''\<newline>''"
    using c8 by blast
  also have "\<dots> = ''# Extracted Content from tmpx9.pdf\<newline>\<newline>## Extracted Images\<newline>\<newline>**[Warning: Failed to upload image (page 1, index 1) to S3]**\<newline>\<newline>## Extracted Text\<newline>\<newline>### Page 1\<newline>```\<newline>Hello\<newline>```\<newline>\<newline>## Extracted Tables\<newline>\<newline>Failed to process tables: java not found\<newline>''"
    by code_simp
  finally have whole: "open_source_extract_pdf env_unconfigured show_table ''/tmp/tmpx9.pdf'' broken_tables_doc =
       ''# Extracted Content from tmpx9.pdf\<newline>\<newline>## Extracted Images\<newline>\<newline>**[Warning: Failed to upload image (page 1, index 1) to S3]**\<newline>\<newline>## Extracted Text\<newline>\<newline>### Page 1\<newline>```\<newline>Hello\<newline>```\<newline>\<newline>## Extracted Tables\<newline>\<newline>Failed to process tables: java not found\<newline>''" .
  from c8 have no_retry: "\<forall>rp. rp 0 = read_pdf broken_tables_doc 0 \<longrightarrow>
         open_source_extract_pdf env_unconfigured show_table ''/tmp/tmpx9.pdf''
           (broken_tables_doc\<lparr>read_pdf := rp\<rparr>) =
         open_source_extract_pdf env_unconfigured show_table ''/tmp/tmpx9.pdf'' broken_tables_doc"
    by blast
  have once: "open_source_extract_pdf env_unconfigured show_table ''/tmp/tmpx9.pdf''
         (broken_tables_doc\<lparr>read_pdf := \<lambda>n. Inl (PyExc OtherException ''java not found'')\<rparr>) =
       open_source_extract_pdf env_unconfigured show_table ''/tmp/tmpx9.pdf'' broken_tables_doc"
    using no_retry [rule_format, of "\<lambda>n. Inl (PyExc OtherException ''java not found'')"] h
    by simp
  from later t whole once show ?thesis by blast
qed

subsection \<open>Pipe tables\<close>

lemma manifest_rows_loop_tail:
  "0 < n \<Longrightarrow> manifest_rows_loop (enumerate n rows) md = md @ concat (map pipe_row rows)"
  by (induction rows arbitrary: n md) (simp_all add: Let_def)

lemma manifest_rows_loop_eq:
  "manifest_rows_loop (enumerate 0 (h # rest)) md =
     md @ pipe_row h @ dash_row h @ concat (map pipe_row rest)"
  by (simp add: Let_def manifest_rows_loop_tail)

lemma diffbot_rows_loop_eq:
  "diffbot_rows_loop rows md = md @ concat (map pipe_row rows)"
  by (induction rows arbitrary: md) simp_all

lemma diffbot_table_eq:
  "diffbot_tables_loop [\<lparr>dt_rows = Some (h # rest)\<rparr>] md =
     md @ pipe_row h @ dash_row h @ concat (map pipe_row rest) @ ''\<newline>''"
  by (simp add: Let_def get_or_def diffbot_rows_loop_eq)

lemma sheet_rows_loop_tail:
  "0 < n \<Longrightarrow> sheet_rows_loop float_str (enumerate n rows) md =
     md @ concat (map (\<lambda>row. pipe_row (row_data_of float_str row)) rows)"
  by (induction rows arbitrary: n md) (simp_all add: Let_def)

lemma sheet_rows_loop_eq:
  "sheet_rows_loop float_str (enumerate 0 (h # rest)) md =
     md @ pipe_row (row_data_of float_str h) @ dash_row (row_data_of float_str h)
     @ concat (map (\<lambda>row. pipe_row (row_data_of float_str row)) rest)"
  by (simp add: Let_def sheet_rows_loop_tail)

text \<open>
  C6. Both pipe-table renderers (the one for the manifest tables of the cloud-document
  assembler and the one of the cloud-page assembler) write the first row as the header
  row, then a row of dashes in which every column has as many dashes as the header cell
  has characters, then one row per further row of the table. For the table
  \<open>[["A","B"],["1","2"]]\<close> these are exactly the three lines \<open>| A | B |\<close>,
  \<open>| - | - |\<close> and \<open>| 1 | 2 |\<close> (the cloud-page renderer ends the table with an empty
  line, the cloud-document assembler appends one after the rows).
\<close>

theorem C6_pipe_table:
  "manifest_rows_loop (enumerate 0 (h # rest)) md =
     md @ pipe_row h @ dash_row h @ concat (map pipe_row rest)
   \<and> diffbot_tables_loop [\<lparr>dt_rows = Some (h # rest)\<rparr>] md =
     md @ pipe_row h @ dash_row h @ concat (map pipe_row rest) @ ''\<newline>''
   \<and> dash_row h = ''| '' @ join '' | '' (map (\<lambda>col. replicate (length col) CHR ''-'') h) @ '' |\<newline>''
   \<and> map length (map (\<lambda>col. replicate (length col) CHR ''-'') h) = map length h
   \<and> md_lines (manifest_rows_loop (enumerate 0 [[''A'', ''B''], [''1'', ''2'']]) []) =
       [''| A | B |'', ''| - | - |'', ''| 1 | 2 |'']
   \<and> md_lines (diffbot_tables_loop [\<lparr>dt_rows = Some [[''A'', ''B''], [''1'', ''2'']]\<rparr>] []) =
       [''| A | B |'', ''| - | - |'', ''| 1 | 2 |'', '''']"
proof -
  have a: "manifest_rows_loop (enumerate 0 (h # rest)) md =
     md @ pipe_row h @ dash_row h @ concat (map pipe_row rest)"
    by (rule manifest_rows_loop_eq)
  have b: "diffbot_tables_loop [\<lparr>dt_rows = Some (h # rest)\<rparr>] md =
     md @ pipe_row h @ dash_row h @ concat (map pipe_row rest) @ ''\<newline>''"
    by (rule diffbot_table_eq)
  have c: "dash_row h = ''| '' @ join '' | '' (map (\<lambda>col. replicate (length col) CHR ''-'') h) @ '' |\<newline>''"
    by (simp add: dash_row_def)
  have d: "map length (map (\<lambda>col. replicate (length col) CHR ''-'') h) = map length h"
    by simp
  have e: "md_lines (manifest_rows_loop (enumerate 0 [[''A'', ''B''], [''1'', ''2'']]) []) =
       [''| A | B |'', ''| - | - |'', ''| 1 | 2 |'']"
    by code_simp
  have f: "md_lines (diffbot_tables_loop [\<lparr>dt_rows = Some [[''A'', ''B''], [''1'', ''2'']]\<rparr>] []) =
       [''| A | B |'', ''| - | - |'', ''| 1 | 2 |'', '''']"
    by code_simp
  from a b c d e f show ?thesis by blast
qed

theorem C6_pipe_table_witness:
  "manifest_rows_loop (enumerate 0 ab_table) [] = ''| A | B |\<newline>| - | - |\<newline>| 1 | 2 |\<newline>''
   \<and> diffbot_tables_loop [\<lparr>dt_rows = Some ab_table\<rparr>] [] =
       ''| A | B |\<newline>| - | - |\<newline>| 1 | 2 |\<newline>\<newline>''
   \<and> adobe_zip_to_markdown env_unconfigured repr_float ''temp_adobe_extractions/extraction_t.zip''
       table_bundle =
       Inr ''# Extracted PDF Data (Enterprise)\<newline>\<newline>## Table Element\<newline>| A | B |\<newline>| - | - |\<newline>| 1 | 2 |\<newline>\<newline>''"
proof -
  have rows: "pipe_row [''A'', ''B''] @ dash_row [''A'', ''B''] @ concat (map pipe_row [[''1'', ''2'']])
      = ''| A | B |\<newline>| - | - |\<newline>| 1 | 2 |\<newline>''"
    by code_simp
  have a: "manifest_rows_loop (enumerate 0 ab_table) [] = ''| A | B |\<newline>| - | - |\<newline>| 1 | 2 |\<newline>''"
    using C6_pipe_table [of "[''A'', ''B'']" "[[''1'', ''2'']]" "[]"] rows
    by (simp add: ab_table_def)
  have b: "diffbot_tables_loop [\<lparr>dt_rows = Some ab_table\<rparr>] [] =
       ''| A | B |\<newline>| - | - |\<newline>| 1 | 2 |\<newline>\<newline>''"
    using C6_pipe_table [of "[''A'', ''B'']" "[[''1'', ''2'']]" "[]"] rows
    by (simp add: ab_table_def)
  have c: "adobe_zip_to_markdown env_unconfigured repr_float ''temp_adobe_extractions/extraction_t.zip''
       table_bundle =
       Inr ''# Extracted PDF Data (Enterprise)\<newline>\<newline>## Table Element\<newline>| A | B |\<newline>| - | - |\<newline>| 1 | 2 |\<newline>\<newline>''"
    by code_simp
  from a b c show ?thesis by blast
qed

subsection \<open>Spreadsheet cells\<close>

lemma row_data_falsy:
  "i < length row \<Longrightarrow> \<not> truthy_cell (row ! i) \<Longrightarrow> row_data_of float_str row ! i = []"
  by (simp add: row_data_of_def)

lemma row_data_truthy:
  "i < length row \<Longrightarrow> truthy_cell (row ! i) \<Longrightarrow>
   row_data_of float_str row ! i = str_cell float_str (row ! i)"
  by (simp add: row_data_of_def)

text \<open>
  C10. In the spreadsheet tables of the cloud-document assembler every cell whose value
  is false in Python's sense is written as the empty string: an absent cell and the empty
  string, and also the number 0, the float 0.0 and the boolean False. Every other cell is
  written as its \<open>str\<close>. A sheet is rendered from these strings, so a cell holding the
  number 0 is an empty cell of the pipe table.
\<close>

theorem C10_falsy_cells_empty:
  "length (row_data_of float_str row) = length row
   \<and> (\<forall>i < length row. row_data_of float_str row ! i =
         (if truthy_cell (row ! i) then str_cell float_str (row ! i) else []))
   \<and> \<not> truthy_cell XNone \<and> \<not> truthy_cell (XStr [])
   \<and> \<not> truthy_cell (XInt 0) \<and> \<not> truthy_cell (XFloat 0 e) \<and> \<not> truthy_cell (XBool False)
   \<and> row_data_of float_str [XNone, XStr [], XInt 0, XFloat 0 e, XBool False] = [[], [], [], [], []]
   \<and> sheet_rows_loop float_str (enumerate 0 (h # rest)) md =
       md @ pipe_row (row_data_of float_str h) @ dash_row (row_data_of float_str h)
       @ concat (map (\<lambda>row. pipe_row (row_data_of float_str row)) rest)"
proof -
  have a: "length (row_data_of float_str row) = length row"
    by (simp add: row_data_of_def)
  have b: "\<forall>i < length row. row_data_of float_str row ! i =
         (if truthy_cell (row ! i) then str_cell float_str (row ! i) else [])"
    by (simp add: row_data_of_def)
  have c: "row_data_of float_str [XNone, XStr [], XInt 0, XFloat 0 e, XBool False] = [[], [], [], [], []]"
    by (simp add: row_data_of_def)
  have d: "sheet_rows_loop float_str (enumerate 0 (h # rest)) md =
       md @ pipe_row (row_data_of float_str h) @ dash_row (row_data_of float_str h)
       @ concat (map (\<lambda>row. pipe_row (row_data_of float_str row)) rest)"
    by (rule sheet_rows_loop_eq)
  from a b c d show ?thesis by simp
qed

theorem C10_falsy_cells_empty_witness:
  "row_data_of repr_float [XStr ''nut'', XInt 0] ! 1 = []
   \<and> row_data_of repr_float [XStr ''nut'', XInt 0] ! 0 = ''nut''
   \<and> row_data_of repr_float [XNone, XStr [], XInt 0, XFloat 0 0, XBool False] = [[], [], [], [], []]
   \<and> adobe_zip_to_markdown env_unconfigured repr_float ''temp_adobe_extractions/extraction_t.zip''
       sheet_bundle =
       Inr ''# Extracted PDF Data (Enterprise)\<newline>\<newline>## Table from t.xlsx\<newline>| Item | Qty |\<newline>| ---- | --- |\<newline>| nut |  |\<newline>|  |  |\<newline>|  | 7 |\<newline>\<newline>''"
proof -
  note c10 = C10_falsy_cells_empty [of repr_float "[XStr ''nut'', XInt 0]" 0
      "[XStr ''Item'', XStr ''Qty'']" "[]" "[]"]
  have e1: "row_data_of repr_float [XStr ''nut'', XInt 0] ! 1 = []"
    using c10 by simp
  have e0: "row_data_of repr_float [XStr ''nut'', XInt 0] ! 0 = ''nut''"
    using c10 by simp
  have z: "row_data_of repr_float [XNone, XStr [], XInt 0, XFloat 0 0, XBool False] = [[], [], [], [], []]"
    using c10 by simp
  have c: "adobe_zip_to_markdown env_unconfigured repr_float ''temp_adobe_extractions/extraction_t.zip''
       sheet_bundle =
       Inr ''# Extracted PDF Data (Enterprise)\<newline>\<newline>## Table from t.xlsx\<newline>| Item | Qty |\<newline>| ---- | --- |\<newline>| nut |  |\<newline>|  |  |\<newline>|  | 7 |\<newline>\<newline>''"
    by code_simp
  from e1 e0 z c show ?thesis by blast
qed

subsection \<open>Cloud-page assembler\<close>

lemma diffbot_images_loop_length: "length md \<le> length (diffbot_images_loop imgs md)"
proof (induction imgs arbitrary: md)
  case Nil
  show ?case by simp
next
  case (Cons img imgs)
  have "length md \<le> length (md @ ''!['' @ get_or (img_caption img) ''Image'' @ '']('' @ get_or (img_url img) [] @ '')\<newline>\<newline>'')"
    by simp
  also have "\<dots> \<le> length (diffbot_images_loop imgs (md @ ''!['' @ get_or (img_caption img) ''Image'' @ '']('' @ get_or (img_url img) [] @ '')\<newline>\<newline>''))"
    by (rule Cons.IH)
  finally show ?case by (simp add: Let_def)
qed

lemma diffbot_tables_loop_length: "length md \<le> length (diffbot_tables_loop tables md)"
proof (induction tables arbitrary: md)
  case Nil
  show ?case by simp
next
  case (Cons t tables)
  show ?case
  proof (cases "get_or (dt_rows t) [] = []")
    case True
    then show ?thesis using Cons.IH [of md] by (simp add: Let_def)
  next
    case False
    let ?md' = "diffbot_rows_loop (tl (get_or (dt_rows t) []))
                  (md @ pipe_row (hd (get_or (dt_rows t) [])) @ dash_row (hd (get_or (dt_rows t) [])))
                @ ''\<newline>''"
    have "length md \<le> length ?md'"
      by (simp add: diffbot_rows_loop_eq)
    also have "\<dots> \<le> length (diffbot_tables_loop tables ?md')"
      by (rule Cons.IH)
    finally show ?thesis using False by (simp add: Let_def)
  qed
qed

lemma objects_loop_length: "length md \<le> length (objects_loop objs md)"
proof (induction objs arbitrary: md)
  case Nil
  show ?case by simp
next
  case (Cons obj objs)
  define md2 where "md2 = (md @ ''# '' @ get_or (obj_title obj) ''Untitled'' @ ''\<newline>\<newline>'')
      @ get_or (obj_text obj) [] @ ''\<newline>\<newline>''"
  define md3 where "md3 = (if get_or (obj_images obj) [] \<noteq> []
      then diffbot_images_loop (get_or (obj_images obj) []) (md2 @ ''## Images\<newline>\<newline>'') else md2)"
  define md4 where "md4 = (if get_or (obj_tables obj) [] \<noteq> []
      then diffbot_tables_loop (get_or (obj_tables obj) []) (md3 @ ''## Tables\<newline>\<newline>'') else md3)"
  have s: "objects_loop (obj # objs) md = objects_loop objs md4"
    by (simp add: Let_def md2_def md3_def md4_def)
  have "length md \<le> length md2"
    by (simp add: md2_def)
  also have "length md2 \<le> length md3"
    using diffbot_images_loop_length [of "md2 @ ''## Images\<newline>\<newline>''" "get_or (obj_images obj) []"]
    by (simp add: md3_def)
  also have "length md3 \<le> length md4"
    using diffbot_tables_loop_length [of "md3 @ ''## Tables\<newline>\<newline>''" "get_or (obj_tables obj) []"]
    by (simp add: md4_def)
  also have "length md4 \<le> length (objects_loop objs md4)"
    by (rule Cons.IH)
  finally show ?case unfolding s .
qed

lemma objects_loop_nonempty: "objects_loop (obj # objs) [] \<noteq> []"
proof -
  define md2 where "md2 = (''# '' @ get_or (obj_title obj) ''Untitled'' @ ''\<newline>\<newline>'')
      @ get_or (obj_text obj) [] @ ''\<newline>\<newline>''"
  define md3 where "md3 = (if get_or (obj_images obj) [] \<noteq> []
      then diffbot_images_loop (get_or (obj_images obj) []) (md2 @ ''## Images\<newline>\<newline>'') else md2)"
  define md4 where "md4 = (if get_or (obj_tables obj) [] \<noteq> []
      then diffbot_tables_loop (get_or (obj_tables obj) []) (md3 @ ''## Tables\<newline>\<newline>'') else md3)"
  have s: "objects_loop (obj # objs) [] = objects_loop objs md4"
    by (simp add: Let_def md2_def md3_def md4_def)
  have "0 < length md2"
    by (simp add: md2_def)
  also have "length md2 \<le> length md3"
    using diffbot_images_loop_length [of "md2 @ ''## Images\<newline>\<newline>''" "get_or (obj_images obj) []"]
    by (simp add: md3_def)
  also have "length md3 \<le> length md4"
    using diffbot_tables_loop_length [of "md3 @ ''## Tables\<newline>\<newline>''" "get_or (obj_tables obj) []"]
    by (simp add: md4_def)
  also have "length md4 \<le> length (objects_loop objs md4)"
    by (rule objects_loop_length)
  finally show ?thesis unfolding s by simp
qed

lemma enterprise_website_not_200:
  "resp_status (requests_get (diffbot_endpoint env url)) \<noteq> 200 \<Longrightarrow>
   enterprise_extract_website env requests_get url = None"
  by (simp add: enterprise_extract_website_def diffbot_endpoint_def Let_def)

lemma enterprise_website_no_objects:
  "get_or (resp_objects (requests_get (diffbot_endpoint env url))) [] = [] \<Longrightarrow>
   enterprise_extract_website env requests_get url = None"
  by (simp add: enterprise_extract_website_def diffbot_endpoint_def Let_def)

lemma enterprise_website_some:
  assumes "secrets_get (st_secrets env) ''DIFFBOT_API_TOKEN'' [] \<noteq> []"
    and "resp_status (requests_get (diffbot_endpoint env url)) = 200"
    and "resp_objects (requests_get (diffbot_endpoint env url)) = Some (obj # objs)"
  shows "enterprise_extract_website env requests_get url = Some (objects_loop (obj # objs) [])"
  using assms objects_loop_nonempty [of obj objs]
  by (simp add: enterprise_extract_website_def diffbot_endpoint_def Let_def get_or_def)

text \<open>
  C7. When the content-extraction API does not answer with a success status, or answers
  with no content objects (the list is empty, or the \<open>objects\<close> key is missing), the
  cloud-page pipeline returns no Markdown at all, and the caller reports the failure.
  Otherwise (token set, status 200, at least one object) it returns a non-empty
  document, so that the failure is reported in these cases only.
\<close>

theorem C7_enterprise_website_failure:
  "(\<not> success_status (resp_status (requests_get (diffbot_endpoint env url)))
      \<or> resp_status (requests_get (diffbot_endpoint env url)) \<noteq> 200
      \<or> resp_objects (requests_get (diffbot_endpoint env url)) = Some []
      \<or> resp_objects (requests_get (diffbot_endpoint env url)) = None
    \<longrightarrow> enterprise_extract_website env requests_get url = None
        \<and> main_enterprise_website env requests_get url =
            Inl ''Enterprise website extraction failed. Check logs or Diffbot token in secrets.'')
   \<and> (secrets_get (st_secrets env) ''DIFFBOT_API_TOKEN'' [] \<noteq> []
      \<and> resp_status (requests_get (diffbot_endpoint env url)) = 200
      \<and> (\<exists>obj objs. resp_objects (requests_get (diffbot_endpoint env url)) = Some (obj # objs))
    \<longrightarrow> (\<exists>md. md \<noteq> [] \<and> enterprise_extract_website env requests_get url = Some md
              \<and> main_enterprise_website env requests_get url = Inr md))"
proof -
  let ?resp = "requests_get (diffbot_endpoint env url)"
  have none: "enterprise_extract_website env requests_get url = None"
    if "\<not> success_status (resp_status ?resp) \<or> resp_status ?resp \<noteq> 200
        \<or> resp_objects ?resp = Some [] \<or> resp_objects ?resp = None"
  proof -
    from that consider "resp_status ?resp \<noteq> 200" | "get_or (resp_objects ?resp) [] = []"
      by (auto simp: success_status_def get_or_def)
    then show ?thesis
    proof cases
      case 1
      then show ?thesis by (rule enterprise_website_not_200)
    next
      case 2
      then show ?thesis by (rule enterprise_website_no_objects)
    qed
  qed
  have reported: "main_enterprise_website env requests_get url =
        Inl ''Enterprise website extraction failed. Check logs or Diffbot token in secrets.''"
    if "enterprise_extract_website env requests_get url = None"
    using that by (simp add: main_enterprise_website_def truthy_def)
  have some: "\<exists>md. md \<noteq> [] \<and> enterprise_extract_website env requests_get url = Some md
              \<and> main_enterprise_website env requests_get url = Inr md"
    if t: "secrets_get (st_secrets env) ''DIFFBOT_API_TOKEN'' [] \<noteq> []"
      and s: "resp_status ?resp = 200"
      and o: "\<exists>obj objs. resp_objects ?resp = Some (obj # objs)"
  proof -
    from o obtain obj objs where oo: "resp_objects ?resp = Some (obj # objs)" by blast
    have r: "enterprise_extract_website env requests_get url = Some (objects_loop (obj # objs) [])"
      using t s oo by (rule enterprise_website_some)
    have n: "objects_loop (obj # objs) [] \<noteq> []"
      by (rule objects_loop_nonempty)
    have m: "main_enterprise_website env requests_get url = Inr (objects_loop (obj # objs) [])"
      using r n by (simp add: main_enterprise_website_def truthy_def)
    from r n m show ?thesis by blast
  qed
  from none reported some show ?thesis by blast
qed

theorem C7_enterprise_website_failure_witness:
  "enterprise_extract_website env_diffbot answer_unavailable ''https://x.com/blog'' = None
   \<and> enterprise_extract_website env_diffbot answer_empty ''https://x.com/blog'' = None
   \<and> main_enterprise_website env_diffbot answer_empty ''https://x.com/blog'' =
       Inl ''Enterprise website extraction failed. Check logs or Diffbot token in secrets.''
   \<and> enterprise_extract_website env_diffbot answer_article ''https://x.com/blog'' =
       Some ''# Untitled\<newline>\<newline>Body\<newline>\<newline>## Images\<newline>\<newline>![Image](http://x/i.png)\<newline>\<newline>## Tables\<newline>\<newline>| A | B |\<newline>| - | - |\<newline>| 1 | 2 |\<newline>\<newline>''
   \<and> main_enterprise_website env_diffbot answer_article ''https://x.com/blog'' =
       Inr ''# Untitled\<newline>\<newline>Body\<newline>\<newline>## Images\<newline>\<newline>![Image](http://x/i.png)\<newline>\<newline>## Tables\<newline>\<newline>| A | B |\<newline>| - | - |\<newline>| 1 | 2 |\<newline>\<newline>''"
proof -
  have u: "\<not> success_status (resp_status (answer_unavailable (diffbot_endpoint env_diffbot ''https://x.com/blog'')))"
    by (simp add: answer_unavailable_def success_status_def)
  have a: "enterprise_extract_website env_diffbot answer_unavailable ''https://x.com/blog'' = None"
    using C7_enterprise_website_failure [of answer_unavailable env_diffbot "''https://x.com/blog''"] u
    by blast
  have e: "resp_objects (answer_empty (diffbot_endpoint env_diffbot ''https://x.com/blog'')) = Some []"
    by (simp add: answer_empty_def)
  have b: "enterprise_extract_website env_diffbot answer_empty ''https://x.com/blog'' = None
     \<and> main_enterprise_website env_diffbot answer_empty ''https://x.com/blog'' =
       Inl ''Enterprise website extraction failed. Check logs or Diffbot token in secrets.''"
    using C7_enterprise_website_failure [of answer_empty env_diffbot "''https://x.com/blog''"] e
    by blast
  have c: "enterprise_extract_website env_diffbot answer_article ''https://x.com/blog'' =
       Some ''# Untitled\<newline>\<newline>Body\<newline>\<newline>## Images\<newline>\<newline>![Image](http://x/i.png)\<newline>\<newline>## Tables\<newline>\<newline>| A | B |\<newline>| - | - |\<newline>| 1 | 2 |\<newline>\<newline>''"
    by code_simp
  have tok: "secrets_get (st_secrets env_diffbot) ''DIFFBOT_API_TOKEN'' [] \<noteq> []"
    by code_simp
  have st: "resp_status (answer_article (diffbot_endpoint env_diffbot ''https://x.com/blog'')) = 200"
    by (simp add: answer_article_def)
  have ob: "\<exists>obj objs. resp_objects (answer_article (diffbot_endpoint env_diffbot ''https://x.com/blog''))
              = Some (obj # objs)"
    by (simp add: answer_article_def)
  have "\<exists>md. md \<noteq> [] \<and> enterprise_extract_website env_diffbot answer_article ''https://x.com/blog'' = Some md
           \<and> main_enterprise_website env_diffbot answer_article ''https://x.com/blog'' = Inr md"
    using C7_enterprise_website_failure [of answer_article env_diffbot "''https://x.com/blog''"] tok st ob
    by blast
  then have d: "main_enterprise_website env_diffbot answer_article ''https://x.com/blog'' =
       Inr ''# Untitled\<newline>\<newline>Body\<newline>\<newline>## Images\<newline>\<newline>![Image](http://x/i.png)\<newline>\<newline>## Tables\<newline>\<newline>| A | B |\<newline>| - | - |\<newline>| 1 | 2 |\<newline>\<newline>''"
    using c by auto
  from a b c d show ?thesis by blast
qed

subsection \<open>Local-page assembler\<close>

lemma resolve_src_eq:
  "(if startswith src ''//'' then ''https:'' @ src
    else if \<not> (startswith src ''http:'' \<or> startswith src ''https:'') then urljoin url src
    else src) = spec_resolve_src urljoin url src"
  by (simp add: spec_resolve_src_def startswith_def)

lemma resolve_href_eq:
  "(if \<not> (startswith href ''http:'' \<or> startswith href ''https:'') then urljoin url href else href)
     = spec_resolve_href urljoin url href"
  by (simp add: spec_resolve_href_def startswith_def)

lemma image_urls_loop_eq:
  "image_urls_loop urljoin url srcs acc =
     acc @ map (spec_resolve_src urljoin url) (List.map_filter (\<lambda>s. s) srcs)"
proof (induction srcs arbitrary: acc)
  case Nil
  show ?case by (simp add: List.map_filter_simps)
next
  case (Cons img srcs)
  show ?case
    by (cases img) (simp_all add: Cons.IH List.map_filter_simps resolve_src_eq)
qed

lemma link_urls_loop_eq:
  "link_urls_loop urljoin url hrefs acc = acc @ map (spec_resolve_href urljoin url) hrefs"
proof (induction hrefs arbitrary: acc)
  case Nil
  show ?case by simp
next
  case (Cons href hrefs)
  show ?case
    unfolding link_urls_loop.simps resolve_href_eq by (simp add: Cons.IH)
qed

lemma md_images_loop_eq:
  "md_images_loop urls md = md @ concat (map (\<lambda>u. ''![Image]('' @ u @ '')\<newline>\<newline>'') urls)"
  by (induction urls arbitrary: md) simp_all

lemma md_links_loop_eq:
  "md_links_loop urls md = md @ concat (map (\<lambda>u. ''- ['' @ u @ '']('' @ u @ '')\<newline>'') urls)"
  by (induction urls arbitrary: md) simp_all

lemma md_tables_loop_eq:
  "md_tables_loop to_markdown xs md = md @ concat (map (spec_html_table_fragment to_markdown) xs)"
proof (induction xs arbitrary: md)
  case Nil
  show ?case by simp
next
  case (Cons x xs)
  obtain idx df where x: "x = (idx, df)" by (cases x)
  show ?case unfolding x by (simp add: Cons.IH spec_html_table_fragment_def)
qed

lemma tables_to_dfs_eq:
  "tables_to_dfs tables acc = acc @ map table_to_df (filter (\<lambda>t. t \<noteq> []) tables)"
  by (induction tables arbitrary: acc) simp_all

lemma open_source_extract_website_eq:
  assumes "requests_get url = Inr response"
    and "\<not> (400 \<le> status_code response \<and> status_code response < 600)"
  shows "open_source_extract_website requests_get urljoin to_markdown url =
     Inr (''# Extracted Content from '' @ url @ ''\<newline>\<newline>''
          @ ''## Text Content\<newline>\<newline>''
          @ join ''\<newline>'' (paragraphs (soup response)) @ ''\<newline>\<newline>''
          @ spec_images_section urljoin url (img_srcs (soup response))
          @ spec_links_section urljoin url (a_hrefs (soup response))
          @ spec_tables_section to_markdown (html_tables (soup response)))"
proof -
  show ?thesis
    using assms
    by (simp add: open_source_extract_website_def Let_def image_urls_loop_eq link_urls_loop_eq
        md_images_loop_eq md_links_loop_eq md_tables_loop_eq tables_to_dfs_eq
        spec_images_section_def spec_links_section_def spec_tables_section_def
        comp_def)
qed





lemma pd_DataFrame_rows: "df_rows (pd_DataFrame table_data) = map (pad_row (table_width table_data)) table_data"
  by (simp add: pd_DataFrame_def table_width_def Let_def)

lemma pd_DataFrame_columns: "df_columns (pd_DataFrame table_data) = map IntLabel [0..<table_width table_data]"
  by (simp add: pd_DataFrame_def table_width_def Let_def)

lemma table_to_df_many:
  assumes "1 < length table_data"
  shows "table_to_df table_data =
     \<lparr>df_columns = map CellLabel (pad_row (table_width table_data) (hd table_data)),
      df_rows = map (pad_row (table_width table_data)) (tl table_data)\<rparr>"
proof -
  from assms obtain r rest where t: "table_data = r # rest" by (cases table_data) auto
  show ?thesis
    using assms unfolding table_to_df_def Let_def pd_DataFrame_rows
    by (simp add: t)
qed

lemma table_to_df_single:
  "table_to_df [row] = \<lparr>df_columns = map IntLabel [0..<length row], df_rows = [map Some row]\<rparr>"
  by (simp add: table_to_df_def pd_DataFrame_def Let_def pad_row_def)

text \<open>
  C9. In the Tables section of the local-page assembler every HTML table that has at
  least one row is rendered, numbered from 1, as \<open>### Table <n>\<close> followed by
  \<open>to_markdown\<close> of its frame. When the table has more than one row, the (filled-up)
  first row is the header of the frame and the remaining rows are its data; when it has
  exactly one row, the header is the default numbering \<open>0, 1, ...\<close> and the row is the
  only data row, so the row is not used as the header.
\<close>

theorem C9_first_row_header:
  "(1 < length table_data \<longrightarrow>
      table_to_df table_data =
        \<lparr>df_columns = map CellLabel (pad_row (table_width table_data) (hd table_data)),
         df_rows = map (pad_row (table_width table_data)) (tl table_data)\<rparr>)
   \<and> table_to_df [row] =
        \<lparr>df_columns = map IntLabel [0..<length row], df_rows = [map Some row]\<rparr>
   \<and> (requests_get url = Inr response
        \<and> \<not> (400 \<le> status_code response \<and> status_code response < 600) \<longrightarrow>
      (\<exists>before. open_source_extract_website requests_get urljoin to_markdown url =
         Inr (before @ ''## Tables\<newline>\<newline>''
              @ concat (map (\<lambda>x. ''### Table '' @ str_nat (fst x) @ ''\<newline>\<newline>''
                                  @ to_markdown (snd x) @ ''\<newline>\<newline>'')
                   (enumerate 1 (map table_to_df
                      (filter (\<lambda>t. t \<noteq> []) (html_tables (soup response)))))))))"
proof -
  have many: "1 < length table_data \<longrightarrow>
      table_to_df table_data =
        \<lparr>df_columns = map CellLabel (pad_row (table_width table_data) (hd table_data)),
         df_rows = map (pad_row (table_width table_data)) (tl table_data)\<rparr>"
    using table_to_df_many by blast
  have single: "table_to_df [row] =
        \<lparr>df_columns = map IntLabel [0..<length row], df_rows = [map Some row]\<rparr>"
    by (rule table_to_df_single)
  have tables_part: "\<exists>before. open_source_extract_website requests_get urljoin to_markdown url =
         Inr (before @ ''## Tables\<newline>\<newline>''
              @ concat (map (\<lambda>x. ''### Table '' @ str_nat (fst x) @ ''\<newline>\<newline>''
                                  @ to_markdown (snd x) @ ''\<newline>\<newline>'')
                   (enumerate 1 (map table_to_df
                      (filter (\<lambda>t. t \<noteq> []) (html_tables (soup response)))))))"
    if h: "requests_get url = Inr response"
      "\<not> (400 \<le> status_code response \<and> status_code response < 600)"
  proof -
    let ?before = "''# Extracted Content from '' @ url @ ''\<newline>\<newline>''
          @ ''## Text Content\<newline>\<newline>''
          @ join ''\<newline>'' (paragraphs (soup response)) @ ''\<newline>\<newline>''
          @ spec_images_section urljoin url (img_srcs (soup response))
          @ spec_links_section urljoin url (a_hrefs (soup response))"
    have f: "spec_html_table_fragment to_markdown =
        (\<lambda>x. ''### Table '' @ str_nat (fst x) @ ''\<newline>\<newline>'' @ to_markdown (snd x) @ ''\<newline>\<newline>'')"
      by (rule ext) (simp add: spec_html_table_fragment_def)
    have "open_source_extract_website requests_get urljoin to_markdown url =
         Inr (?before @ ''## Tables\<newline>\<newline>''
              @ concat (map (\<lambda>x. ''### Table '' @ str_nat (fst x) @ ''\<newline>\<newline>''
                                  @ to_markdown (snd x) @ ''\<newline>\<newline>'')
                   (enumerate 1 (map table_to_df
                      (filter (\<lambda>t. t \<noteq> []) (html_tables (soup response)))))))"
      using h
        open_source_extract_website_eq
          [where requests_get = requests_get and url = url and response = response
             and urljoin = urljoin and to_markdown = to_markdown]
      unfolding spec_tables_section_def f by simp
    then show ?thesis by blast
  qed
  from many single tables_part show ?thesis by blast
qed

theorem C9_first_row_header_witness:
  "table_to_df [[''H1'', ''H2''], [''v1'', ''v2'']] =
     \<lparr>df_columns = [CellLabel (Some ''H1''), CellLabel (Some ''H2'')],
      df_rows = [[Some ''v1'', Some ''v2'']]\<rparr>
   \<and> table_to_df [[''a'', ''b'', ''c''], [''d'']] =
     \<lparr>df_columns = [CellLabel (Some ''a''), CellLabel (Some ''b''), CellLabel (Some ''c'')],
      df_rows = [[Some ''d'', None, None]]\<rparr>
   \<and> table_to_df [[''only'', ''row'']] =
     \<lparr>df_columns = [IntLabel 0, IntLabel 1], df_rows = [[Some ''only'', Some ''row'']]\<rparr>
   \<and> (\<exists>before. open_source_extract_website blog_get join_on_host show_df ''https://x.com/blog'' =
         Inr (before @ ''## Tables\<newline>\<newline>### Table 1\<newline>\<newline>H1,H2;v1,v2\<newline>\<newline>### Table 2\<newline>\<newline>0,1;only,row\<newline>\<newline>''))"
proof -
  have w2: "table_width [[''H1'', ''H2''], [''v1'', ''v2'']] = 2"
    by (simp add: table_width_def)
  have a: "table_to_df [[''H1'', ''H2''], [''v1'', ''v2'']] =
     \<lparr>df_columns = [CellLabel (Some ''H1''), CellLabel (Some ''H2'')],
      df_rows = [[Some ''v1'', Some ''v2'']]\<rparr>"
    using C9_first_row_header [of "[[''H1'', ''H2''], [''v1'', ''v2'']]"]
    by (simp add: w2 pad_row_def)
  have w3: "table_width [[''a'', ''b'', ''c''], [''d'']] = 3"
    by (simp add: table_width_def)
  have b: "table_to_df [[''a'', ''b'', ''c''], [''d'']] =
     \<lparr>df_columns = [CellLabel (Some ''a''), CellLabel (Some ''b''), CellLabel (Some ''c'')],
      df_rows = [[Some ''d'', None, None]]\<rparr>"
    using C9_first_row_header [of "[[''a'', ''b'', ''c''], [''d'']]"]
    by (simp add: w3 pad_row_def numeral_3_eq_3)
  have upt2: "[0..<length [''only'', ''row'']] = [0, 1]"
    by (simp add: upt_rec)
  have c: "table_to_df [[''only'', ''row'']] =
     \<lparr>df_columns = [IntLabel 0, IntLabel 1], df_rows = [[Some ''only'', Some ''row'']]\<rparr>"
    using C9_first_row_header [of _ "[''only'', ''row'']"] upt2
    by simp
  have g: "blog_get ''https://x.com/blog'' = Inr \<lparr>status_code = 200, soup = blog_page\<rparr>"
    by (simp add: blog_get_def)
  have s: "\<not> (400 \<le> status_code \<lparr>status_code = 200, soup = blog_page\<rparr>
              \<and> status_code \<lparr>status_code = 200, soup = blog_page\<rparr> < 600)"
    by simp
  have t: "''## Tables\<newline>\<newline>''
              @ concat (map (\<lambda>x. ''### Table '' @ str_nat (fst x) @ ''\<newline>\<newline>''
                                  @ show_df (snd x) @ ''\<newline>\<newline>'')
                   (enumerate 1 (map table_to_df
                      (filter (\<lambda>t. t \<noteq> []) (html_tables (soup \<lparr>status_code = 200, soup = blog_page\<rparr>))))))
           = ''## Tables\<newline>\<newline>### Table 1\<newline>\<newline>H1,H2;v1,v2\<newline>\<newline>### Table 2\<newline>\<newline>0,1;only,row\<newline>\<newline>''"
    by code_simp
  have "\<exists>before. open_source_extract_website blog_get join_on_host show_df ''https://x.com/blog'' =
         Inr (before @ ''## Tables\<newline>\<newline>''
              @ concat (map (\<lambda>x. ''### Table '' @ str_nat (fst x) @ ''\<newline>\<newline>''
                                  @ show_df (snd x) @ ''\<newline>\<newline>'')
                   (enumerate 1 (map table_to_df
                      (filter (\<lambda>t. t \<noteq> []) (html_tables (soup \<lparr>status_code = 200, soup = blog_page\<rparr>)))))))"
    using C9_first_row_header
      [where requests_get = blog_get and url = "''https://x.com/blog''"
         and response = "\<lparr>status_code = 200, soup = blog_page\<rparr>"
         and urljoin = join_on_host and to_markdown = show_df] g s
    by blast
  then have d: "\<exists>before. open_source_extract_website blog_get join_on_host show_df ''https://x.com/blog'' =
         Inr (before @ ''## Tables\<newline>\<newline>### Table 1\<newline>\<newline>H1,H2;v1,v2\<newline>\<newline>### Table 2\<newline>\<newline>0,1;only,row\<newline>\<newline>'')"
    unfolding t .
  from a b c d show ?thesis by blast
qed

subsection \<open>Run-dependent values in the output\<close>















end
